theory Spec2Isabelle
  imports Main
begin

section \<open>MVR-xchange session glue (mvrx\_protocol.py)\<close>

text \<open>
  The module keeps two process-wide singletons, \<open>DMX_MVR_X_Client._instance\<close> and
  \<open>DMX_MVR_X_Server._instance\<close>, and drives the transport objects of
  \<open>dmx.mvrxchange\<close> and the host scene object \<open>bpy.context.scene.dmx\<close>.
  The model passes the whole process state (\<open>world\<close>) explicitly. Every call that
  leaves the module (a print, a log line, a host handler, a transport method) is
  appended to \<open>trace\<close>, in call order. A Python exception is a value: each operation
  returns the exception that escaped it (\<open>None\<close> when it returned normally)
  together with the state it left behind, since assignments made before a raise stay.
\<close>

subsection \<open>Data\<close>

text \<open>A decoded JSON value; a message is a dict, kept as an association list.\<close>

datatype json =
    JNull
  | JBool bool
  | JNum int
  | JStr string
  | JArr "json list"
  | JObj "(string \<times> json) list"

type_synonym message = "(string \<times> json) list"

type_synonym handle = nat

text \<open>The discovered peer handed to \<open>join\<close>: only its address and port are read.\<close>

record peer =
  ip_address :: string
  port :: nat

text \<open>A commit entry of the host; the module reads \<open>commit_uuid\<close> only.\<close>

record commit =
  commit_uuid :: string

text \<open>
  \<open>AttributeError\<close> is what Python raises for an attribute of \<open>None\<close> or a missing
  attribute; \<open>TransportError\<close> stands for any exception raised inside the transport
  classes of \<open>dmx.mvrxchange\<close>.
\<close>

datatype exn = AttributeError | TransportError

datatype event =
    Print string
  | LogInfo string
  | LogError string
  | CreateMVR_Commits json json
  | UpdateMVR_Client json json
  | CreateMVR_Client json json string nat json
  | Fetched_mvr_downloaded_file json
  | ClientCtor string nat string
  | ClientStart handle
  | ClientJoinMvr handle
  | ClientLeaveMvr handle
  | ClientStop handle
  | ClientRequestFile handle string string
  | Sleep
  | ServerCtor string
  | ServerStart handle
  | ServerStop handle
  | ServerRequestFile handle string string

text \<open>
  The fields \<open>__init__\<close> sets on each singleton (\<open>_dmx\<close> is the global scene object).
  A singleton or a transport object is truthy whenever it is not \<open>None\<close>, so the
  tests \<open>if _instance:\<close> and \<open>if _instance.client:\<close> are tests for \<open>None\<close>.
\<close>

record client_obj =
  client :: "handle option"
  selected_client :: "peer option"
  application_uuid :: string

record server_obj =
  server :: "handle option"
  server_application_uuid :: string

text \<open>
  \<open>prefs\<close> is the add-on preference store, \<open>uuid4\<close> the results of the successive
  calls of \<open>uuid.uuid4()\<close> and \<open>uuid_calls\<close> how many were made; \<open>next_handle\<close>
  names the next transport object to be constructed.
\<close>

record world =
  client_instance :: "client_obj option"
  server_instance :: "server_obj option"
  prefs :: "string \<Rightarrow> string option"
  uuid4 :: "nat \<Rightarrow> string"
  uuid_calls :: nat
  next_handle :: nat
  mvrx_enabled :: bool
  trace :: "event list"

text \<open>
  How the transport behaves during one operation: whether the constructor, or a
  method of the transport object, raises. Each is called at most once per operation.
\<close>

record env =
  ctor_raises :: bool
  start_raises :: bool
  join_raises :: bool
  leave_raises :: bool
  stop_raises :: bool
  request_raises :: bool

type_synonym outcome = "exn option \<times> world"

subsection \<open>Sequencing\<close>

definition emit :: "event \<Rightarrow> world \<Rightarrow> world" where
  "emit e w = w\<lparr>trace := trace w @ [e]\<rparr>"

definition ret :: "world \<Rightarrow> outcome" where
  "ret w = (None, w)"

text \<open>Statement sequencing: a raise in the first part skips the second.\<close>

definition seq :: "(world \<Rightarrow> outcome) \<Rightarrow> (world \<Rightarrow> outcome) \<Rightarrow> world \<Rightarrow> outcome" where
  "seq f g w = (case f w of (None, w') \<Rightarrow> g w' | (Some e, w') \<Rightarrow> (Some e, w'))"

text \<open>A call of an external method: recorded, then it returns or raises.\<close>

definition ext_call :: "bool \<Rightarrow> event \<Rightarrow> world \<Rightarrow> outcome" where
  "ext_call raises e w = ((if raises then Some TransportError else None), emit e w)"

text \<open>\<open>DMX_MVR_X_Client._instance.client.m(...)\<close>: both attribute reads can hit \<open>None\<close>.\<close>

definition client_method :: "bool \<Rightarrow> (handle \<Rightarrow> event) \<Rightarrow> world \<Rightarrow> outcome" where
  "client_method raises ev w =
     (case client_instance w of
        None \<Rightarrow> (Some AttributeError, w)
      | Some inst \<Rightarrow>
          (case client inst of
             None \<Rightarrow> (Some AttributeError, w)
           | Some h \<Rightarrow> ext_call raises (ev h) w))"

subsection \<open>DMX\_MVR\_X\_Client\<close>

text \<open>
  \<open>__init__\<close>: \<open>prefs.get("application_uuid", str(py_uuid.uuid4()))\<close>. Python evaluates
  the default argument before the lookup, so \<open>uuid4()\<close> is called on every
  construction, and its result is used only when the preference is not stored.
\<close>

definition DMX_MVR_X_Client_init :: "world \<Rightarrow> client_obj \<times> world" where
  "DMX_MVR_X_Client_init w =
     (let fresh = uuid4 w (uuid_calls w);
          w1 = w\<lparr>uuid_calls := Suc (uuid_calls w)\<rparr>;
          u = (case prefs w ''application_uuid'' of Some v \<Rightarrow> v | None \<Rightarrow> fresh)
      in (\<lparr>client = None, selected_client = None, application_uuid = u\<rparr>, w1))"

text \<open>
  \<open>connect\<close>: the \<open>try\<close> covers the read of \<open>selected_client\<close>'s attributes and the
  constructor; \<open>start()\<close> is outside it.
\<close>

definition DMX_MVR_X_Client_connect :: "env \<Rightarrow> world \<Rightarrow> outcome" where
  "DMX_MVR_X_Client_connect en w =
     (case client_instance w of
        None \<Rightarrow> (None, w)
      | Some inst \<Rightarrow>
          (case selected_client inst of
             None \<Rightarrow> (None, emit (Print ''Cannot connect to host'') w)
           | Some p \<Rightarrow>
               (let w1 = emit (Print ''Connecting to MVR-xchange client'') w;
                    w2 = emit (ClientCtor (ip_address p) (port p) (application_uuid inst)) w1
                in if ctor_raises en
                   then (None, emit (Print ''Cannot connect to host'') w2)
                   else
                     (let h = next_handle w2;
                          w3 = w2\<lparr>client_instance := Some (inst\<lparr>client := Some h\<rparr>),
                                  next_handle := Suc h\<rparr>
                      in seq (client_method (start_raises en) ClientStart)
                             (\<lambda>s. ret (emit (Print ''thread started'') s)) w3))))"

definition DMX_MVR_X_Client_join :: "env \<Rightarrow> peer option \<Rightarrow> world \<Rightarrow> outcome" where
  "DMX_MVR_X_Client_join en p w =
     (let (inst, w1) = DMX_MVR_X_Client_init w;
          w2 = w1\<lparr>client_instance := Some (inst\<lparr>selected_client := p\<rparr>)\<rparr>
      in seq (DMX_MVR_X_Client_connect en)
           (seq (client_method (join_raises en) ClientJoinMvr)
                (\<lambda>s. ret (emit (LogInfo ''Joining'') s))) w2)"

text \<open>
  Calls into the host scene object go through \<open>DMX_MVR_X_Client._instance._dmx\<close>, which
  raises when the singleton is gone. The host handlers themselves are outside the
  module; the model records the call and takes it to return.
\<close>

definition client_dmx_call :: "event \<Rightarrow> world \<Rightarrow> outcome" where
  "client_dmx_call e w =
     (case client_instance w of
        None \<Rightarrow> (Some AttributeError, w)
      | Some inst \<Rightarrow> (None, emit e w))"

text \<open>\<open>data.get(k, "")\<close>\<close>

definition dict_get :: "message \<Rightarrow> string \<Rightarrow> json" where
  "dict_get data k = (case map_of data k of None \<Rightarrow> JStr [] | Some v \<Rightarrow> v)"

text \<open>\<open>if k in data: handler(data[k])\<close>\<close>

definition when_key :: "message \<Rightarrow> string \<Rightarrow> (json \<Rightarrow> world \<Rightarrow> outcome) \<Rightarrow> world \<Rightarrow> outcome" where
  "when_key data k f w = (case map_of data k of None \<Rightarrow> (None, w) | Some v \<Rightarrow> f v w)"

text \<open>
  The tail of the client callback: \<open>msg_type == "MVR_JOIN_RET" and msg_ok is False\<close>.
  \<open>is False\<close> holds for the JSON literal \<open>false\<close> only.
\<close>

definition join_ret_check :: "message \<Rightarrow> world \<Rightarrow> outcome" where
  "join_ret_check data w =
     (let msg_type = dict_get data ''Type'';
          msg_ok = dict_get data ''OK''
      in if msg_type = JStr ''MVR_JOIN_RET'' \<and> msg_ok = JBool False
         then (None, (emit (LogError ''MVR-xchange client refused our connection'') w)
                       \<lparr>mvrx_enabled := False\<rparr>)
         else (None, w))"

definition DMX_MVR_X_Client_callback :: "message \<Rightarrow> world \<Rightarrow> outcome" where
  "DMX_MVR_X_Client_callback data w =
     (case map_of data ''StationUUID'' of
        None \<Rightarrow> (None, emit (Print ''Bad response'') w)
      | Some uuid \<Rightarrow>
          seq (when_key data ''Commits'' (\<lambda>v. client_dmx_call (CreateMVR_Commits v uuid)))
         (seq (when_key data ''FileUUID''
                 (\<lambda>v. client_dmx_call (CreateMVR_Commits (JArr [JObj data]) uuid)))
         (seq (when_key data ''Provider'' (\<lambda>v. client_dmx_call (UpdateMVR_Client v uuid)))
         (seq (when_key data ''file_downloaded''
                 (\<lambda>v. client_dmx_call (Fetched_mvr_downloaded_file v)))
              (join_ret_check data)))) w)"

text \<open>
  \<open>os.path\<close> is \<open>posixpath\<close> or, on Windows, \<open>ntpath\<close>. The two functions below follow
  \<open>posixpath.join\<close>, \<open>ntpath.splitdrive\<close> and \<open>ntpath.join\<close> of the standard library
  (CPython 3.11) statement by statement. \<open>ntpath\<close> calls \<open>str.upper\<close> and \<open>str.lower\<close>;
  they are parameters of the model, carried by the constructor \<open>Ntpath\<close> in this
  order, so nothing is assumed about case conversion.
\<close>

datatype os_path = Posixpath | Ntpath "string \<Rightarrow> string" "string \<Rightarrow> string"

text \<open>\<open>posixpath.join\<close>, one component: \<open>b.startswith(sep)\<close>, \<open>path.endswith(sep)\<close>.\<close>

definition posix_join2 :: "string \<Rightarrow> string \<Rightarrow> string" where
  "posix_join2 path b =
     (if take 1 b = ''/'' then b
      else if path = [] \<or> take 1 (rev path) = ''/'' then path @ b
      else path @ ''/'' @ b)"

text \<open>The backslash, \<open>sep\<close> of \<open>ntpath\<close>; \<open>seps\<close> holds it and the slash.\<close>

definition bslash :: char where
  "bslash = CHR 0x5C"

definition nt_is_sep :: "char \<Rightarrow> bool" where
  "nt_is_sep c = (c = bslash \<or> c = CHR ''/'')"

text \<open>\<open>s.find(c, start)\<close>, with \<open>None\<close> for Python's \<open>-1\<close>.\<close>

definition str_find :: "char \<Rightarrow> string \<Rightarrow> nat \<Rightarrow> nat option" where
  "str_find c s start =
     (case filter (\<lambda>i. s ! i = c) [start ..< length s] of
        [] \<Rightarrow> None
      | i # rest \<Rightarrow> Some i)"

definition unc_prefix :: string where
  "unc_prefix = [bslash, bslash, CHR ''?'', bslash, CHR ''U'', CHR ''N'', CHR ''C'', bslash]"

definition nt_splitdrive :: "(string \<Rightarrow> string) \<Rightarrow> string \<Rightarrow> string \<times> string" where
  "nt_splitdrive upper p =
     (if 2 \<le> length p then
        (let normp = map (\<lambda>c. if c = CHR ''/'' then bslash else c) p
         in if take 2 normp = [bslash, bslash] then
              (let start = (if upper (take 8 normp) = unc_prefix then 8 else 2)
               in case str_find bslash normp start of
                    None \<Rightarrow> (p, [])
                  | Some index \<Rightarrow>
                      (case str_find bslash normp (index + 1) of
                         None \<Rightarrow> (p, [])
                       | Some index2 \<Rightarrow> (take index2 p, drop index2 p)))
            else if take 1 (drop 1 normp) = '':'' then (take 2 p, drop 2 p)
            else ([], p))
      else ([], p))"

text \<open>The body of the loop of \<open>ntpath.join\<close>, on the pair of result drive and path.\<close>

definition nt_join2 ::
    "(string \<Rightarrow> string) \<Rightarrow> (string \<Rightarrow> string) \<Rightarrow> string \<times> string \<Rightarrow> string \<Rightarrow> string \<times> string" where
  "nt_join2 upper lower r p =
     (let (result_drive, result_path) = r;
          (p_drive, p_path) = nt_splitdrive upper p
      in if p_path \<noteq> [] \<and> nt_is_sep (hd p_path) then
           ((if p_drive \<noteq> [] \<or> result_drive = [] then p_drive else result_drive), p_path)
         else if p_drive \<noteq> [] \<and> p_drive \<noteq> result_drive
                 \<and> lower p_drive \<noteq> lower result_drive then
           (p_drive, p_path)
         else
           (let result_drive' =
                  (if p_drive \<noteq> [] \<and> p_drive \<noteq> result_drive then p_drive else result_drive);
                result_path' =
                  (if result_path \<noteq> [] \<and> \<not> nt_is_sep (last result_path)
                   then result_path @ [bslash] else result_path)
            in (result_drive', result_path' @ p_path)))"

definition nt_join ::
    "(string \<Rightarrow> string) \<Rightarrow> (string \<Rightarrow> string) \<Rightarrow> string \<Rightarrow> string list \<Rightarrow> string" where
  "nt_join upper lower path paths =
     (let (result_drive, result_path) =
            foldl (nt_join2 upper lower) (nt_splitdrive upper path) paths
      in if result_path \<noteq> [] \<and> \<not> nt_is_sep (hd result_path)
            \<and> result_drive \<noteq> [] \<and> last result_drive \<noteq> CHR '':''
         then result_drive @ [bslash] @ result_path
         else result_drive @ result_path)"

definition os_path_join :: "os_path \<Rightarrow> string \<Rightarrow> string list \<Rightarrow> string" where
  "os_path_join osp a ps =
     (case osp of
        Posixpath \<Rightarrow> foldl posix_join2 a ps
      | Ntpath upper lower \<Rightarrow> nt_join upper lower a ps)"

definition os_sep :: "os_path \<Rightarrow> char" where
  "os_sep osp = (case osp of Posixpath \<Rightarrow> CHR ''/'' | Ntpath upper lower \<Rightarrow> bslash)"

text \<open>
  Lines 55-56, with \<open>os.path\<close> and \<open>ADDON_PATH\<close> (the directory of the module file) as
  parameters:
  \<open>os.path.join(ADDON_PATH, "assets", "mvrs", f"{commit.commit_uuid}.mvr")\<close>.
\<close>

definition DMX_MVR_X_Client_request_path ::
    "os_path \<Rightarrow> string \<Rightarrow> 'a commit_scheme \<Rightarrow> string" where
  "DMX_MVR_X_Client_request_path osp addon_path c =
     os_path_join osp addon_path [''assets'', ''mvrs'', commit_uuid c @ ''.mvr'']"

definition DMX_MVR_X_Client_request_file ::
    "env \<Rightarrow> os_path \<Rightarrow> string \<Rightarrow> 'a commit_scheme \<Rightarrow> world \<Rightarrow> outcome" where
  "DMX_MVR_X_Client_request_file en osp addon_path c w =
     (case client_instance w of
        None \<Rightarrow> (None, w)
      | Some inst \<Rightarrow>
          (case client inst of
             None \<Rightarrow> (None, w)
           | Some h0 \<Rightarrow>
               (let path = DMX_MVR_X_Client_request_path osp addon_path c
                in case seq (DMX_MVR_X_Client_connect en)
                          (client_method (request_raises en)
                             (\<lambda>h. ClientRequestFile h (commit_uuid c) path)) w of
                     (Some e, w') \<Rightarrow> (None, emit (Print ''problem requesting file'') w')
                   | (None, w') \<Rightarrow> (None, emit (LogInfo ''Requesting file'') w'))))"

definition DMX_MVR_X_Client_re_join :: "env \<Rightarrow> world \<Rightarrow> outcome" where
  "DMX_MVR_X_Client_re_join en w =
     (case client_instance w of
        None \<Rightarrow> (None, w)
      | Some inst \<Rightarrow>
          (case client inst of
             None \<Rightarrow> (None, w)
           | Some h0 \<Rightarrow>
               (case seq (DMX_MVR_X_Client_connect en)
                         (client_method (join_raises en) ClientJoinMvr) w of
                  (Some e, w') \<Rightarrow> (None, emit (Print ''problem re_joining'') w')
                | (None, w') \<Rightarrow> (None, w'))))"

definition DMX_MVR_X_Client_disable :: "env \<Rightarrow> world \<Rightarrow> outcome" where
  "DMX_MVR_X_Client_disable en w =
     (case client_instance w of
        None \<Rightarrow> (None, emit (Print ''i am gone'') w)
      | Some inst \<Rightarrow>
          seq (\<lambda>s. case client inst of
                      None \<Rightarrow> (None, s)
                    | Some h \<Rightarrow>
                        seq (\<lambda>t. ret (emit (Print ''stop two'') t))
                            (client_method (stop_raises en) ClientStop) s)
              (\<lambda>s. ret (emit (Print ''i am gone'')
                          (emit (LogInfo ''Disabling MVR'')
                             (emit (Print ''stopped'') (s\<lparr>client_instance := None\<rparr>)))))
              (emit (Print ''stop one'') w))"

definition DMX_MVR_X_Client_leave :: "env \<Rightarrow> world \<Rightarrow> outcome" where
  "DMX_MVR_X_Client_leave en w =
     (case client_instance w of
        None \<Rightarrow> (None, w)
      | Some inst \<Rightarrow>
          seq (\<lambda>s. case client inst of
                      None \<Rightarrow> (None, s)
                    | Some h0 \<Rightarrow>
                        seq (DMX_MVR_X_Client_connect en)
                       (seq (client_method (leave_raises en) ClientLeaveMvr)
                       (seq (\<lambda>t. ret (emit Sleep t))
                            (client_method (stop_raises en) ClientStop))) s)
              (\<lambda>s. ret (emit (LogInfo ''Disabling MVR'') (s\<lparr>client_instance := None\<rparr>)))
              w)"

subsection \<open>DMX\_MVR\_X\_Server\<close>

definition DMX_MVR_X_Server_init :: "world \<Rightarrow> server_obj \<times> world" where
  "DMX_MVR_X_Server_init w =
     (let fresh = uuid4 w (uuid_calls w);
          w1 = w\<lparr>uuid_calls := Suc (uuid_calls w)\<rparr>;
          u = (case prefs w ''application_uuid'' of Some v \<Rightarrow> v | None \<Rightarrow> fresh)
      in (\<lparr>server = None, server_application_uuid = u\<rparr>, w1))"

definition server_dmx_call :: "event \<Rightarrow> world \<Rightarrow> outcome" where
  "server_dmx_call e w =
     (case server_instance w of
        None \<Rightarrow> (Some AttributeError, w)
      | Some inst \<Rightarrow> (None, emit e w))"

text \<open>\<open>DMX_MVR_X_Server._instance.server.m(...)\<close>\<close>

definition server_method :: "bool \<Rightarrow> (handle \<Rightarrow> event) \<Rightarrow> world \<Rightarrow> outcome" where
  "server_method raises ev w =
     (case server_instance w of
        None \<Rightarrow> (Some AttributeError, w)
      | Some inst \<Rightarrow>
          (case server inst of
             None \<Rightarrow> (Some AttributeError, w)
           | Some h \<Rightarrow> ext_call raises (ev h) w))"

text \<open>
  The server callback gets the decoded message and the connection, whose \<open>addr\<close> is
  the pair of address and port.
\<close>

definition DMX_MVR_X_Server_callback :: "message \<Rightarrow> string \<times> nat \<Rightarrow> world \<Rightarrow> outcome" where
  "DMX_MVR_X_Server_callback json_data a w =
     (let w0 = emit (Print ''callback'') w;
          (addr, prt) = a
      in case map_of json_data ''StationUUID'' of
           None \<Rightarrow> (None, emit (Print ''Bad response'') w0)
         | Some uuid \<Rightarrow>
             seq (when_key json_data ''Commits''
                    (\<lambda>v. server_dmx_call (CreateMVR_Commits v uuid)))
            (seq (when_key json_data ''FileUUID''
                    (\<lambda>v. server_dmx_call (CreateMVR_Commits (JArr [JObj json_data]) uuid)))
            (seq (when_key json_data ''Provider''
                    (\<lambda>provider.
                       server_dmx_call
                         (CreateMVR_Client (dict_get json_data ''StationName'') uuid addr prt
                            provider)))
                 (when_key json_data ''file_downloaded''
                    (\<lambda>v. server_dmx_call (Fetched_mvr_downloaded_file v))))) w0)"

text \<open>Lines 165-166, the same expression as in the client.\<close>

definition DMX_MVR_X_Server_request_path ::
    "os_path \<Rightarrow> string \<Rightarrow> 'a commit_scheme \<Rightarrow> string" where
  "DMX_MVR_X_Server_request_path osp addon_path c =
     os_path_join osp addon_path [''assets'', ''mvrs'', commit_uuid c @ ''.mvr'']"

text \<open>
  Line 164 reads \<open>DMX_MVR_X_Server._instance.DMX_MVR_X_Server\<close>. Neither \<open>__init__\<close> nor
  the class gives the object an attribute of that name, so the read raises.
\<close>

definition getattr_DMX_MVR_X_Server :: "server_obj \<Rightarrow> exn + bool" where
  "getattr_DMX_MVR_X_Server inst = Inl AttributeError"

definition DMX_MVR_X_Server_request_file ::
    "env \<Rightarrow> os_path \<Rightarrow> string \<Rightarrow> 'a commit_scheme \<Rightarrow> world \<Rightarrow> outcome" where
  "DMX_MVR_X_Server_request_file en osp addon_path c w =
     (case server_instance w of
        None \<Rightarrow> (None, w)
      | Some inst \<Rightarrow>
          (case getattr_DMX_MVR_X_Server inst of
             Inl e \<Rightarrow> (Some e, w)
           | Inr b \<Rightarrow>
               if b then
                 (let path = DMX_MVR_X_Server_request_path osp addon_path c
                  in case server_method (request_raises en)
                            (\<lambda>h. ServerRequestFile h (commit_uuid c) path) w of
                       (Some e, w') \<Rightarrow> (None, emit (Print ''problem requesting file'') w')
                     | (None, w') \<Rightarrow> (None, emit (LogInfo ''Requesting file'') w'))
               else (None, w)))"

text \<open>\<open>enable\<close>: the singleton is assigned before the listener is constructed.\<close>

definition DMX_MVR_X_Server_enable :: "env \<Rightarrow> world \<Rightarrow> outcome" where
  "DMX_MVR_X_Server_enable en w =
     (case server_instance w of
        Some inst \<Rightarrow> (None, w)
      | None \<Rightarrow>
          (let (inst, w1) = DMX_MVR_X_Server_init w;
               w2 = w1\<lparr>server_instance := Some inst\<rparr>;
               w3 = emit (ServerCtor (server_application_uuid inst)) w2
           in if ctor_raises en
              then (None, emit (Print ''Cannot connect to host'') w3)
              else
                (let h = next_handle w3;
                     w4 = w3\<lparr>server_instance := Some (inst\<lparr>server := Some h\<rparr>),
                             next_handle := Suc h\<rparr>
                 in server_method (start_raises en) ServerStart w4)))"

definition DMX_MVR_X_Server_disable :: "env \<Rightarrow> world \<Rightarrow> outcome" where
  "DMX_MVR_X_Server_disable en w =
     (case server_instance w of
        None \<Rightarrow> (None, w)
      | Some inst \<Rightarrow>
          seq (\<lambda>s. case server inst of
                      None \<Rightarrow> (None, s)
                    | Some h \<Rightarrow> server_method (stop_raises en) ServerStop s)
              (\<lambda>s. ret (emit (LogInfo ''Disabling MVR'') (s\<lparr>server_instance := None\<rparr>)))
              w)"

subsection \<open>A process lifetime\<close>

text \<open>
  The entry points the host and the network threads call, and a run of them from a
  given state. An exception that escapes an entry point ends that call only; the
  state it left is the state the next call sees.
\<close>

datatype op =
    Client_join env "peer option"
  | Client_connect env
  | Client_re_join env
  | Client_request_file env os_path string commit
  | Client_callback message
  | Client_leave env
  | Client_disable env
  | Server_enable env
  | Server_callback message "string \<times> nat"
  | Server_request_file env os_path string commit
  | Server_disable env

fun step :: "op \<Rightarrow> world \<Rightarrow> outcome" where
  "step (Client_join en p) w = DMX_MVR_X_Client_join en p w"
| "step (Client_connect en) w = DMX_MVR_X_Client_connect en w"
| "step (Client_re_join en) w = DMX_MVR_X_Client_re_join en w"
| "step (Client_request_file en osp a c) w = DMX_MVR_X_Client_request_file en osp a c w"
| "step (Client_callback d) w = DMX_MVR_X_Client_callback d w"
| "step (Client_leave en) w = DMX_MVR_X_Client_leave en w"
| "step (Client_disable en) w = DMX_MVR_X_Client_disable en w"
| "step (Server_enable en) w = DMX_MVR_X_Server_enable en w"
| "step (Server_callback d a) w = DMX_MVR_X_Server_callback d a w"
| "step (Server_request_file en osp a c) w = DMX_MVR_X_Server_request_file en osp a c w"
| "step (Server_disable en) w = DMX_MVR_X_Server_disable en w"

fun run :: "op list \<Rightarrow> world \<Rightarrow> world" where
  "run [] w = w"
| "run (x # xs) w = run xs (snd (step x w))"

text \<open>The events an operation added to the trace.\<close>

definition new_events :: "world \<Rightarrow> world \<Rightarrow> event list" where
  "new_events w w' = drop (length (trace w)) (trace w')"

text \<open>
  Every singleton that exists carries the identifier \<open>v\<close>, and \<open>v\<close> is what the
  preference store holds.
\<close>

definition uuid_is :: "string \<Rightarrow> world \<Rightarrow> bool" where
  "uuid_is v w =
     (prefs w ''application_uuid'' = Some v
      \<and> (case client_instance w of None \<Rightarrow> True | Some i \<Rightarrow> application_uuid i = v)
      \<and> (case server_instance w of None \<Rightarrow> True | Some i \<Rightarrow> server_application_uuid i = v))"

subsection \<open>Concrete states and messages\<close>

text \<open>
  A fresh process with no stored identifier, whose first two \<open>uuid4()\<close> results
  differ, and the states and messages the examples below are evaluated at.
\<close>

definition demo_world :: world where
  "demo_world =
     \<lparr>client_instance = None, server_instance = None,
      prefs = (\<lambda>k. None),
      uuid4 = (\<lambda>n. if n = 0 then ''6fa459ea-ee8a-4ca4-894e-db77e160355e''
                     else ''16fd2706-8baf-433b-82eb-8c7fada847da''),
      uuid_calls = 0, next_handle = 0, mvrx_enabled = True, trace = []\<rparr>"

definition demo_stored :: world where
  "demo_stored =
     demo_world\<lparr>prefs := (\<lambda>k. if k = ''application_uuid''
                               then Some ''0b5a7d52-1f0c-4c1e-9d3a-7a1e5c2f9b11'' else None)\<rparr>"

definition calm :: env where
  "calm = \<lparr>ctor_raises = False, start_raises = False, join_raises = False,
            leave_raises = False, stop_raises = False, request_raises = False\<rparr>"

definition unreachable :: env where
  "unreachable = calm\<lparr>ctor_raises := True\<rparr>"

definition demo_peer :: peer where
  "demo_peer = \<lparr>ip_address = ''192.168.1.20'', port = 48484\<rparr>"

text \<open>The state a failed \<open>join\<close> leaves: a singleton without a transport.\<close>

definition demo_pending :: world where
  "demo_pending =
     demo_world\<lparr>client_instance :=
       Some \<lparr>client = None, selected_client = Some demo_peer,
              application_uuid = ''6fa459ea-ee8a-4ca4-894e-db77e160355e''\<rparr>\<rparr>"

definition demo_joined :: world where
  "demo_joined =
     demo_world\<lparr>client_instance :=
       Some \<lparr>client = Some 0, selected_client = Some demo_peer,
              application_uuid = ''6fa459ea-ee8a-4ca4-894e-db77e160355e''\<rparr>,
       next_handle := 1\<rparr>"

definition demo_serving :: world where
  "demo_serving =
     demo_world\<lparr>server_instance :=
       Some \<lparr>server = Some 0,
              server_application_uuid = ''6fa459ea-ee8a-4ca4-894e-db77e160355e''\<rparr>,
       next_handle := 1\<rparr>"

definition msg_no_station :: message where
  "msg_no_station = [(''Type'', JStr ''MVR_JOIN_RET''), (''OK'', JBool False)]"

definition msg_rejected :: message where
  "msg_rejected = [(''Type'', JStr ''MVR_JOIN_RET''), (''OK'', JBool False),
                   (''StationUUID'', JStr ''a1'')]"

definition msg_join_ret :: message where
  "msg_join_ret = [(''Type'', JStr ''MVR_JOIN_RET''), (''OK'', JBool True),
                   (''StationUUID'', JStr ''a1''), (''Provider'', JStr ''BlenderDMX''),
                   (''Commits'', JArr [])]"

definition msg_commits_provider :: message where
  "msg_commits_provider =
     [(''StationUUID'', JStr ''a1''), (''Commits'', JArr []),
      (''Provider'', JStr ''BlenderDMX'')]"

definition demo_commit :: commit where
  "demo_commit = \<lparr>commit_uuid = ''c1''\<rparr>"

definition abs_commit :: commit where
  "abs_commit = \<lparr>commit_uuid = ''/tmp/x''\<rparr>"

definition demo_addon_path :: string where
  "demo_addon_path = ''/home/u/addons/dmx''"

text \<open>Case conversion on the letters a to z, as \<open>str.upper\<close> and \<open>str.lower\<close> act on them.\<close>

definition ascii_upper :: "string \<Rightarrow> string" where
  "ascii_upper s =
     map (\<lambda>c. if 97 \<le> (of_char c :: nat) \<and> (of_char c :: nat) \<le> 122
              then char_of ((of_char c :: nat) - 32) else c) s"

definition ascii_lower :: "string \<Rightarrow> string" where
  "ascii_lower s =
     map (\<lambda>c. if 65 \<le> (of_char c :: nat) \<and> (of_char c :: nat) \<le> 90
              then char_of ((of_char c :: nat) + 32) else c) s"

definition demo_ntpath :: os_path where
  "demo_ntpath = Ntpath ascii_upper ascii_lower"

definition demo_nt_addon_path :: string where
  "demo_nt_addon_path = ''C:'' @ [bslash] @ ''addons'' @ [bslash] @ ''dmx''"

subsection \<open>Auxiliary notions\<close>

fun is_LogError :: "event \<Rightarrow> bool" where
  "is_LogError (LogError s) = True"
| "is_LogError e = False"

text \<open>\<open>msg_type == "MVR_JOIN_RET" and msg_ok is False\<close>, as a test on the message.\<close>

definition is_rejection :: "message \<Rightarrow> bool" where
  "is_rejection data =
     (map_of data ''Type'' = Some (JStr ''MVR_JOIN_RET'') \<and> map_of data ''OK'' = Some (JBool False))"

text \<open>The list of the call made for a field, empty when the field is absent.\<close>

definition on_field :: "message \<Rightarrow> string \<Rightarrow> (json \<Rightarrow> event) \<Rightarrow> event list" where
  "on_field data k ev = (case map_of data k of None \<Rightarrow> [] | Some v \<Rightarrow> [ev v])"

text \<open>
  A component with no path separator in it: no slash, and for \<open>ntpath\<close> no backslash
  and no drive colon either.
\<close>

definition plain_component :: "os_path \<Rightarrow> string \<Rightarrow> bool" where
  "plain_component osp s =
     (case osp of
        Posixpath \<Rightarrow> CHR ''/'' \<notin> set s
      | Ntpath upper lower \<Rightarrow> CHR ''/'' \<notin> set s \<and> bslash \<notin> set s \<and> CHR '':'' \<notin> set s)"

text \<open>An operation that leaves the preference store and the identifiers in place.\<close>

definition keeps :: "(world \<Rightarrow> outcome) \<Rightarrow> bool" where
  "keeps f =
     (\<forall>w. prefs (snd (f w)) = prefs w
          \<and> (\<forall>v. uuid_is v w \<longrightarrow> uuid_is v (snd (f w))))"

section \<open>Properties\<close>

subsection \<open>Basic facts\<close>

lemmas demo_defs = demo_world_def demo_stored_def calm_def demo_peer_def demo_pending_def
  demo_joined_def demo_serving_def unreachable_def msg_no_station_def msg_rejected_def
  msg_join_ret_def msg_commits_provider_def demo_commit_def abs_commit_def demo_addon_path_def

lemmas op_defs = DMX_MVR_X_Client_join_def DMX_MVR_X_Client_init_def
  DMX_MVR_X_Client_connect_def DMX_MVR_X_Client_leave_def DMX_MVR_X_Client_request_file_def
  DMX_MVR_X_Client_callback_def DMX_MVR_X_Server_enable_def DMX_MVR_X_Server_init_def
  DMX_MVR_X_Server_callback_def server_method_def client_method_def seq_def emit_def Let_def
  ret_def ext_call_def when_key_def client_dmx_call_def server_dmx_call_def
  join_ret_check_def dict_get_def new_events_def

lemma emit_simps [simp]:
  "trace (emit e w) = trace w @ [e]"
  "client_instance (emit e w) = client_instance w"
  "server_instance (emit e w) = server_instance w"
  "prefs (emit e w) = prefs w"
  "uuid4 (emit e w) = uuid4 w"
  "uuid_calls (emit e w) = uuid_calls w"
  "next_handle (emit e w) = next_handle w"
  "mvrx_enabled (emit e w) = mvrx_enabled w"
  by (simp_all add: emit_def)

lemma uuid_is_emit [simp]: "uuid_is v (emit e w) = uuid_is v w"
  by (simp add: uuid_is_def)

subsection \<open>No operation touches the stored identifier\<close>

lemma keepsI: "(\<And>w. prefs (snd (f w)) = prefs w) \<Longrightarrow> (\<And>w v. uuid_is v w \<Longrightarrow> uuid_is v (snd (f w))) \<Longrightarrow> keeps f"
  by (simp add: keeps_def)

lemma keeps_seq: "keeps f \<Longrightarrow> keeps g \<Longrightarrow> keeps (seq f g)"
  unfolding keeps_def seq_def
  by (auto split: prod.splits option.splits) (metis snd_conv)+

lemma keeps_const: "keeps (\<lambda>w. (r, w))"
  by (simp add: keeps_def)

lemma keeps_emit: "keeps (\<lambda>w. (r, emit e w))"
  by (simp add: keeps_def)

lemma keeps_ret_emit: "keeps (\<lambda>w. ret (emit e w))"
  by (simp add: keeps_def ret_def)

lemma keeps_ext_call: "keeps (ext_call b e)"
  by (simp add: keeps_def ext_call_def)

lemma keeps_client_method: "keeps (client_method b ev)"
  by (simp add: keeps_def client_method_def ext_call_def split: option.splits)

lemma keeps_server_method: "keeps (server_method b ev)"
  by (simp add: keeps_def server_method_def ext_call_def split: option.splits)

lemma keeps_client_dmx_call: "keeps (client_dmx_call e)"
  by (simp add: keeps_def client_dmx_call_def split: option.splits)

lemma keeps_server_dmx_call: "keeps (server_dmx_call e)"
  by (simp add: keeps_def server_dmx_call_def split: option.splits)

lemma keeps_when_key: "(\<And>v. keeps (f v)) \<Longrightarrow> keeps (when_key d k f)"
  by (simp add: keeps_def when_key_def split: option.splits)

lemma keeps_join_ret_check: "keeps (join_ret_check d)"
  by (simp add: keeps_def join_ret_check_def Let_def uuid_is_def)

lemma keeps_case_option: "keeps f \<Longrightarrow> (\<And>x. keeps (g x)) \<Longrightarrow> keeps (\<lambda>w. case x0 of None \<Rightarrow> f w | Some x \<Rightarrow> g x w)"
  by (cases x0) simp_all

lemma keeps_catch:
  "keeps f \<Longrightarrow> keeps (\<lambda>w. case f w of (Some e, w') \<Rightarrow> (None, emit a w') | (None, w') \<Rightarrow> (None, emit b w'))"
  unfolding keeps_def by (auto split: prod.splits option.splits) (metis snd_conv)+

lemma keeps_catch2:
  "keeps f \<Longrightarrow> keeps (\<lambda>w. case f w of (Some e, w') \<Rightarrow> (None, emit a w') | (None, w') \<Rightarrow> (None, w'))"
  unfolding keeps_def by (auto split: prod.splits option.splits) (metis snd_conv)+

lemma keeps_connect: "keeps (DMX_MVR_X_Client_connect en)"
  unfolding keeps_def DMX_MVR_X_Client_connect_def
  by (auto simp: Let_def seq_def client_method_def ext_call_def ret_def uuid_is_def split: option.splits)

lemma keeps_client_callback: "keeps (DMX_MVR_X_Client_callback d)"
proof -
  have "\<And>uuid. keeps (seq (when_key d ''Commits'' (\<lambda>v. client_dmx_call (CreateMVR_Commits v uuid)))
         (seq (when_key d ''FileUUID''
                 (\<lambda>v. client_dmx_call (CreateMVR_Commits (JArr [JObj d]) uuid)))
         (seq (when_key d ''Provider'' (\<lambda>v. client_dmx_call (UpdateMVR_Client v uuid)))
         (seq (when_key d ''file_downloaded''
                 (\<lambda>v. client_dmx_call (Fetched_mvr_downloaded_file v)))
              (join_ret_check d)))))"
    by (intro keeps_seq keeps_when_key keeps_client_dmx_call keeps_join_ret_check)
  then show ?thesis
    unfolding DMX_MVR_X_Client_callback_def keeps_def by (auto split: option.splits)
qed

lemma keeps_server_callback: "keeps (DMX_MVR_X_Server_callback d a)"
proof -
  have "\<And>uuid addr prt. keeps (seq (when_key d ''Commits''
                    (\<lambda>v. server_dmx_call (CreateMVR_Commits v uuid)))
            (seq (when_key d ''FileUUID''
                    (\<lambda>v. server_dmx_call (CreateMVR_Commits (JArr [JObj d]) uuid)))
            (seq (when_key d ''Provider''
                    (\<lambda>provider.
                       server_dmx_call
                         (CreateMVR_Client (dict_get d ''StationName'') uuid addr prt
                            provider)))
                 (when_key d ''file_downloaded''
                    (\<lambda>v. server_dmx_call (Fetched_mvr_downloaded_file v))))))"
    by (intro keeps_seq keeps_when_key keeps_server_dmx_call)
  then show ?thesis
    unfolding DMX_MVR_X_Server_callback_def keeps_def by (auto split: option.splits prod.splits simp: Let_def)
qed

lemma keeps_request_file: "keeps (DMX_MVR_X_Client_request_file en osp a c)"
proof -
  have "\<And>path. keeps (\<lambda>w. case seq (DMX_MVR_X_Client_connect en)
                          (client_method (request_raises en)
                             (\<lambda>h. ClientRequestFile h (commit_uuid c) path)) w of
                     (Some e, w') \<Rightarrow> (None, emit (Print ''problem requesting file'') w')
                   | (None, w') \<Rightarrow> (None, emit (LogInfo ''Requesting file'') w'))"
    by (intro keeps_catch keeps_seq keeps_connect keeps_client_method)
  then show ?thesis
    unfolding DMX_MVR_X_Client_request_file_def keeps_def by (auto split: option.splits simp: Let_def)
qed

lemma keeps_re_join: "keeps (DMX_MVR_X_Client_re_join en)"
proof -
  have "keeps (\<lambda>w. case seq (DMX_MVR_X_Client_connect en)
                         (client_method (join_raises en) ClientJoinMvr) w of
                  (Some e, w') \<Rightarrow> (None, emit (Print ''problem re_joining'') w')
                | (None, w') \<Rightarrow> (None, w'))"
    by (intro keeps_catch2 keeps_seq keeps_connect keeps_client_method)
  then show ?thesis
    unfolding DMX_MVR_X_Client_re_join_def keeps_def by (auto split: option.splits)
qed

lemma keeps_drop_client: "keeps (\<lambda>s. ret (emit e (s\<lparr>client_instance := None\<rparr>)))"
  by (simp add: keeps_def ret_def uuid_is_def)

lemma keeps_leave: "keeps (DMX_MVR_X_Client_leave en)"
proof -
  have "\<And>inst. keeps (seq (\<lambda>s. case client inst of
                      None \<Rightarrow> (None, s)
                    | Some h0 \<Rightarrow>
                        seq (DMX_MVR_X_Client_connect en)
                       (seq (client_method (leave_raises en) ClientLeaveMvr)
                       (seq (\<lambda>t. ret (emit Sleep t))
                            (client_method (stop_raises en) ClientStop))) s)
              (\<lambda>s. ret (emit (LogInfo ''Disabling MVR'') (s\<lparr>client_instance := None\<rparr>))))"
    by (intro keeps_seq keeps_case_option keeps_const keeps_connect keeps_client_method keeps_ret_emit keeps_drop_client)
  then show ?thesis
    unfolding DMX_MVR_X_Client_leave_def keeps_def by (auto split: option.splits)
qed


lemma keeps_client_disable: "keeps (DMX_MVR_X_Client_disable en)"
proof -
  have h: "\<And>inst. keeps (seq (\<lambda>s. case client inst of
                      None \<Rightarrow> (None, s)
                    | Some h \<Rightarrow>
                        seq (\<lambda>t. ret (emit (Print ''stop two'') t))
                            (client_method (stop_raises en) ClientStop) s)
              (\<lambda>s. ret (emit (Print ''i am gone'')
                          (emit (LogInfo ''Disabling MVR'')
                             (emit (Print ''stopped'') (s\<lparr>client_instance := None\<rparr>))))))"
    by (intro keeps_seq keeps_case_option keeps_const keeps_client_method keeps_ret_emit)
       (simp add: keeps_def ret_def uuid_is_def)
  show ?thesis
    unfolding keeps_def
  proof (intro allI)
    fix w
    show "prefs (snd (DMX_MVR_X_Client_disable en w)) = prefs w \<and>
          (\<forall>v. uuid_is v w \<longrightarrow> uuid_is v (snd (DMX_MVR_X_Client_disable en w)))"
    proof (cases "client_instance w")
      case None
      then show ?thesis by (simp add: DMX_MVR_X_Client_disable_def)
    next
      case (Some i)
      from h[of i, unfolded keeps_def, THEN spec, of "emit (Print ''stop one'') w"]
      show ?thesis by (simp add: DMX_MVR_X_Client_disable_def Some)
    qed
  qed
qed

lemma keeps_join: "keeps (DMX_MVR_X_Client_join en p)"
proof -
  have h: "keeps (seq (DMX_MVR_X_Client_connect en)
           (seq (client_method (join_raises en) ClientJoinMvr)
                (\<lambda>s. ret (emit (LogInfo ''Joining'') s))))"
    by (intro keeps_seq keeps_connect keeps_client_method keeps_ret_emit)
  show ?thesis
    unfolding DMX_MVR_X_Client_join_def keeps_def DMX_MVR_X_Client_init_def
    using h[unfolded keeps_def]
    by (auto simp: Let_def uuid_is_def split: option.splits)
qed

lemma keeps_server_enable: "keeps (DMX_MVR_X_Server_enable en)"
  unfolding keeps_def DMX_MVR_X_Server_enable_def DMX_MVR_X_Server_init_def
  by (auto simp: Let_def server_method_def ext_call_def uuid_is_def split: option.splits)

lemma keeps_server_disable: "keeps (DMX_MVR_X_Server_disable en)"
  unfolding keeps_def DMX_MVR_X_Server_disable_def
  by (auto simp: Let_def seq_def ret_def server_method_def ext_call_def uuid_is_def split: option.splits)

lemma keeps_server_request_file: "keeps (DMX_MVR_X_Server_request_file en osp a c)"
  unfolding keeps_def DMX_MVR_X_Server_request_file_def getattr_DMX_MVR_X_Server_def
  by (auto split: option.splits)

lemma keeps_step: "keeps (step x)"
proof (cases x)
  case (Client_join en p)
  then have "step x = DMX_MVR_X_Client_join en p" by (simp add: fun_eq_iff)
  then show ?thesis by (simp add: keeps_join)
next
  case (Client_connect en)
  then have "step x = DMX_MVR_X_Client_connect en" by (simp add: fun_eq_iff)
  then show ?thesis by (simp add: keeps_connect)
next
  case (Client_re_join en)
  then have "step x = DMX_MVR_X_Client_re_join en" by (simp add: fun_eq_iff)
  then show ?thesis by (simp add: keeps_re_join)
next
  case (Client_request_file en osp a c)
  then have "step x = DMX_MVR_X_Client_request_file en osp a c" by (simp add: fun_eq_iff)
  then show ?thesis by (simp add: keeps_request_file)
next
  case (Client_callback d)
  then have "step x = DMX_MVR_X_Client_callback d" by (simp add: fun_eq_iff)
  then show ?thesis by (simp add: keeps_client_callback)
next
  case (Client_leave en)
  then have "step x = DMX_MVR_X_Client_leave en" by (simp add: fun_eq_iff)
  then show ?thesis by (simp add: keeps_leave)
next
  case (Client_disable en)
  then have "step x = DMX_MVR_X_Client_disable en" by (simp add: fun_eq_iff)
  then show ?thesis by (simp add: keeps_client_disable)
next
  case (Server_enable en)
  then have "step x = DMX_MVR_X_Server_enable en" by (simp add: fun_eq_iff)
  then show ?thesis by (simp add: keeps_server_enable)
next
  case (Server_callback d a)
  then have "step x = DMX_MVR_X_Server_callback d a" by (simp add: fun_eq_iff)
  then show ?thesis by (simp add: keeps_server_callback)
next
  case (Server_request_file en osp a c)
  then have "step x = DMX_MVR_X_Server_request_file en osp a c" by (simp add: fun_eq_iff)
  then show ?thesis by (simp add: keeps_server_request_file)
next
  case (Server_disable en)
  then have "step x = DMX_MVR_X_Server_disable en" by (simp add: fun_eq_iff)
  then show ?thesis by (simp add: keeps_server_disable)
qed

lemma run_prefs: "prefs (run ops w) = prefs w"
proof (induction ops arbitrary: w)
  case Nil
  show ?case by simp
next
  case (Cons x xs)
  have "prefs (snd (step x w)) = prefs w"
    using keeps_step[of x] by (simp add: keeps_def)
  with Cons show ?case by simp
qed

lemma run_uuid_is: "uuid_is v w \<Longrightarrow> uuid_is v (run ops w)"
proof (induction ops arbitrary: w)
  case Nil
  then show ?case by simp
next
  case (Cons x xs)
  have "uuid_is v (snd (step x w))"
    using keeps_step[of x] Cons.prems by (simp add: keeps_def)
  with Cons.IH show ?case by simp
qed

subsection \<open>What the callbacks and connect compute\<close>

lemma client_dispatch:
  assumes "client_instance w = Some inst"
  shows "seq (when_key data k (\<lambda>v. client_dmx_call (ev v))) g w =
           g (w\<lparr>trace := trace w @ on_field data k ev\<rparr>)"
  using assms
  by (simp add: seq_def when_key_def client_dmx_call_def on_field_def emit_def split: option.splits)

lemma server_dispatch:
  assumes "server_instance w = Some inst"
  shows "seq (when_key data k (\<lambda>v. server_dmx_call (ev v))) g w =
           g (w\<lparr>trace := trace w @ on_field data k ev\<rparr>)"
  using assms
  by (simp add: seq_def when_key_def server_dmx_call_def on_field_def emit_def split: option.splits)

lemma server_dispatch_last:
  assumes "server_instance w = Some inst"
  shows "when_key data k (\<lambda>v. server_dmx_call (ev v)) w =
           (None, w\<lparr>trace := trace w @ on_field data k ev\<rparr>)"
  using assms
  by (simp add: when_key_def server_dmx_call_def on_field_def emit_def split: option.splits)

lemma join_ret_check_eq:
  "join_ret_check data w =
     (None, w\<lparr>trace := trace w @ (if is_rejection data
                                     then [LogError ''MVR-xchange client refused our connection'']
                                     else []),
              mvrx_enabled := mvrx_enabled w \<and> \<not> is_rejection data\<rparr>)"
  by (auto simp: join_ret_check_def dict_get_def is_rejection_def Let_def emit_def
           split: option.splits)

lemma client_callback_eq:
  assumes "map_of data ''StationUUID'' = Some u" "client_instance w = Some inst"
  shows "DMX_MVR_X_Client_callback data w =
     (None, w\<lparr>trace := trace w
                 @ on_field data ''Commits'' (\<lambda>v. CreateMVR_Commits v u)
                 @ on_field data ''FileUUID'' (\<lambda>v. CreateMVR_Commits (JArr [JObj data]) u)
                 @ on_field data ''Provider'' (\<lambda>v. UpdateMVR_Client v u)
                 @ on_field data ''file_downloaded'' (\<lambda>v. Fetched_mvr_downloaded_file v)
                 @ (if is_rejection data
                    then [LogError ''MVR-xchange client refused our connection''] else []),
              mvrx_enabled := mvrx_enabled w \<and> \<not> is_rejection data\<rparr>)"
  using assms
  by (simp add: DMX_MVR_X_Client_callback_def client_dispatch[where inst = inst] join_ret_check_eq)

lemma server_callback_eq:
  assumes "map_of data ''StationUUID'' = Some u" "server_instance w = Some inst"
  shows "DMX_MVR_X_Server_callback data (addr, prt) w =
     (None, w\<lparr>trace := trace w @ [Print ''callback'']
                 @ on_field data ''Commits'' (\<lambda>v. CreateMVR_Commits v u)
                 @ on_field data ''FileUUID'' (\<lambda>v. CreateMVR_Commits (JArr [JObj data]) u)
                 @ on_field data ''Provider''
                     (\<lambda>v. CreateMVR_Client (dict_get data ''StationName'') u addr prt v)
                 @ on_field data ''file_downloaded'' (\<lambda>v. Fetched_mvr_downloaded_file v)\<rparr>)"
  using assms
  by (simp add: DMX_MVR_X_Server_callback_def server_dispatch[where inst = inst]
        server_dispatch_last[where inst = inst] emit_def)

lemma connect_cases:
  assumes "client_instance w = Some inst" "selected_client inst = Some p"
  shows "DMX_MVR_X_Client_connect en w =
     (if ctor_raises en then
        (None, w\<lparr>trace := trace w @ [Print ''Connecting to MVR-xchange client'',
                     ClientCtor (ip_address p) (port p) (application_uuid inst),
                     Print ''Cannot connect to host'']\<rparr>)
      else if start_raises en then
        (Some TransportError,
         w\<lparr>client_instance := Some (inst\<lparr>client := Some (next_handle w)\<rparr>),
           next_handle := Suc (next_handle w),
           trace := trace w @ [Print ''Connecting to MVR-xchange client'',
                     ClientCtor (ip_address p) (port p) (application_uuid inst),
                     ClientStart (next_handle w)]\<rparr>)
      else
        (None,
         w\<lparr>client_instance := Some (inst\<lparr>client := Some (next_handle w)\<rparr>),
           next_handle := Suc (next_handle w),
           trace := trace w @ [Print ''Connecting to MVR-xchange client'',
                     ClientCtor (ip_address p) (port p) (application_uuid inst),
                     ClientStart (next_handle w), Print ''thread started'']\<rparr>))"
  using assms
  by (simp add: DMX_MVR_X_Client_connect_def Let_def seq_def client_method_def ext_call_def
        ret_def emit_def)

text \<open>The server's \<open>request_file\<close> stops at the attribute read of line 164.\<close>

lemma server_request_file_raises:
  "server_instance w = Some inst \<Longrightarrow>
   DMX_MVR_X_Server_request_file en osp a c w = (Some AttributeError, w)"
  by (simp add: DMX_MVR_X_Server_request_file_def getattr_DMX_MVR_X_Server_def)

subsection \<open>Joining path components\<close>

lemma bslash_neq [simp]:
  "bslash \<noteq> CHR ''/''" "bslash \<noteq> CHR '':''" "bslash \<noteq> CHR ''.''" "bslash \<noteq> CHR ''m''"
  "bslash \<noteq> CHR ''v''" "bslash \<noteq> CHR ''r''" "bslash \<noteq> CHR ''s''" "bslash \<noteq> CHR ''a''"
  "bslash \<noteq> CHR ''e''" "bslash \<noteq> CHR ''t''"
  by (simp_all add: bslash_def)

lemma plain_component_mvr:
  "plain_component osp u \<Longrightarrow> plain_component osp (u @ ''.mvr'')"
  by (cases osp) (simp_all add: plain_component_def)

lemma posix_join2_plain:
  "CHR ''/'' \<notin> set b \<Longrightarrow> d \<noteq> [] \<Longrightarrow> last d \<noteq> CHR ''/'' \<Longrightarrow> posix_join2 d b = d @ ''/'' @ b"
  by (cases d rule: rev_cases; cases b) (auto simp: posix_join2_def)

lemma posix_mvrs_dir:
  "foldl posix_join2 a [''assets'', ''mvrs''] \<noteq> []
   \<and> last (foldl posix_join2 a [''assets'', ''mvrs'']) \<noteq> CHR ''/''"
  by (simp add: posix_join2_def)

lemma nt_splitdrive_plain:
  assumes "CHR ''/'' \<notin> set b" "bslash \<notin> set b" "CHR '':'' \<notin> set b"
  shows "nt_splitdrive upper b = ([], b)"
proof -
  have n: "map (\<lambda>c. if c = CHR ''/'' then bslash else c) b = b"
    using assms(1) by (induction b) auto
  have a: "take 2 b \<noteq> [bslash, bslash]"
    using assms(2) by (cases b) auto
  have c: "take 1 (drop 1 b) \<noteq> '':''"
    using assms(3) by (cases b; cases "tl b") auto
  show ?thesis using a c by (simp add: nt_splitdrive_def Let_def n)
qed

lemma nt_join2_plain:
  assumes "CHR ''/'' \<notin> set b" "bslash \<notin> set b" "CHR '':'' \<notin> set b"
  shows "nt_join2 upper lower (rd, rp) b =
           (rd, (if rp \<noteq> [] \<and> \<not> nt_is_sep (last rp) then rp @ [bslash] else rp) @ b)"
proof -
  have h: "b \<noteq> [] \<Longrightarrow> \<not> nt_is_sep (hd b)"
    using assms(1,2) by (cases b) (auto simp: nt_is_sep_def)
  show ?thesis
    using h by (auto simp: nt_join2_def nt_splitdrive_plain[OF assms] Let_def)
qed

lemma nt_join_plain_last:
  assumes "CHR ''/'' \<notin> set b" "bslash \<notin> set b" "CHR '':'' \<notin> set b"
  shows "nt_join upper lower a [''assets'', ''mvrs'', b] =
           nt_join upper lower a [''assets'', ''mvrs''] @ [bslash] @ b"
proof -
  obtain rd rp where st: "nt_join2 upper lower (nt_splitdrive upper a) ''assets'' = (rd, rp)"
    by (cases "nt_join2 upper lower (nt_splitdrive upper a) ''assets''") auto
  define d where "d = (if rp \<noteq> [] \<and> \<not> nt_is_sep (last rp) then rp @ [bslash] else rp) @ ''mvrs''"
  have m: "nt_join2 upper lower (rd, rp) ''mvrs'' = (rd, d)"
    unfolding d_def by (rule nt_join2_plain) simp_all
  have dn: "d \<noteq> []" "\<not> nt_is_sep (last d)"
    by (simp_all add: d_def nt_is_sep_def bslash_def)
  have l: "nt_join2 upper lower (rd, d) b = (rd, d @ [bslash] @ b)"
    using nt_join2_plain[OF assms, of upper lower rd d] dn by simp
  have hd: "hd (d @ [bslash] @ b) = hd d" using dn(1) by simp
  show ?thesis
    using dn(1) by (simp add: nt_join_def st m l hd)
qed

lemma os_path_join_plain_last:
  assumes "plain_component osp b"
  shows "os_path_join osp a [''assets'', ''mvrs'', b] =
           os_path_join osp a [''assets'', ''mvrs''] @ [os_sep osp] @ b"
proof (cases osp)
  case Posixpath
  have "foldl posix_join2 a [''assets'', ''mvrs'', b] =
          posix_join2 (foldl posix_join2 a [''assets'', ''mvrs'']) b" by simp
  also have "\<dots> = foldl posix_join2 a [''assets'', ''mvrs''] @ ''/'' @ b"
    using assms Posixpath posix_mvrs_dir[of a]
    by (intro posix_join2_plain) (simp_all add: plain_component_def)
  finally show ?thesis using Posixpath by (simp add: os_path_join_def os_sep_def)
next
  case (Ntpath upper lower)
  then show ?thesis
    using assms nt_join_plain_last[of b upper lower a]
    by (simp add: os_path_join_def os_sep_def plain_component_def)
qed

lemma connect_extends:
  "\<exists>xs. trace (snd (DMX_MVR_X_Client_connect en w)) = trace w @ xs
        \<and> (\<forall>h u p. ClientRequestFile h u p \<notin> set xs)"
  by (auto simp: DMX_MVR_X_Client_connect_def Let_def seq_def client_method_def ext_call_def
        ret_def emit_def split: option.splits if_splits)

lemma request_file_event:
  assumes "ClientRequestFile h u p
             \<in> set (new_events w (snd (DMX_MVR_X_Client_request_file en osp a c w)))"
  shows "u = commit_uuid c \<and> p = DMX_MVR_X_Client_request_path osp a c"
proof -
  obtain xs where x: "trace (snd (DMX_MVR_X_Client_connect en w)) = trace w @ xs"
      and nx: "\<forall>h u p. ClientRequestFile h u p \<notin> set xs"
    using connect_extends by blast
  obtain r w1 where c1: "DMX_MVR_X_Client_connect en w = (r, w1)"
    by (cases "DMX_MVR_X_Client_connect en w") auto
  with x have t1: "trace w1 = trace w @ xs" by simp
  show ?thesis
    using assms nx
    by (auto simp: DMX_MVR_X_Client_request_file_def Let_def seq_def c1 t1 client_method_def
          ext_call_def emit_def new_events_def split: option.splits if_splits)
qed

text \<open>
  Two more identifiers that leave the directory: a drive-lettered one under \<open>ntpath\<close>,
  and one with parent steps, which has a separator in it.
\<close>

lemma nt_join_drive_escapes:
  "os_path_join (Ntpath upper lower) (''C:'' @ [bslash] @ ''addons'' @ [bslash] @ ''dmx'')
     [''assets'', ''mvrs'', ''D:/x'' @ ''.mvr''] = ''D:/x.mvr''"
  by (simp add: os_path_join_def nt_join_def nt_join2_def nt_splitdrive_def nt_is_sep_def
        bslash_def Let_def)

lemma posix_join_dotdot:
  "os_path_join Posixpath ''/home/u/addons/dmx'' [''assets'', ''mvrs'', ''../../../x'' @ ''.mvr'']
     = ''/home/u/addons/dmx/assets/mvrs/../../../x.mvr''"
  by (simp add: os_path_join_def posix_join2_def)

section \<open>The claims\<close>

subsection \<open>C1: the station identifier\<close>

text \<open>
  Claim C1 says that the station identifier is generated at most once per process, is
  never the unset value, and that every construction of \<open>DMX_MVR_X_Client\<close> and of
  \<open>DMX_MVR_X_Server\<close> reads the same value. In a process whose preference store holds
  no \<open>application_uuid\<close>, a \<open>join\<close> followed by an \<open>enable\<close> calls \<open>uuid4()\<close> twice,
  and client and server end up with different identifiers.
\<close>

theorem C1_counterexample:
  "map_option application_uuid (client_instance (run [Client_join calm (Some demo_peer), Server_enable calm] demo_world))
     = Some ''6fa459ea-ee8a-4ca4-894e-db77e160355e''
   \<and> map_option server_application_uuid (server_instance (run [Client_join calm (Some demo_peer), Server_enable calm] demo_world))
     = Some ''16fd2706-8baf-433b-82eb-8c7fada847da''
   \<and> uuid_calls (run [Client_join calm (Some demo_peer), Server_enable calm] demo_world) = 2"
  by (simp add: demo_world_def calm_def demo_peer_def DMX_MVR_X_Client_join_def DMX_MVR_X_Client_init_def DMX_MVR_X_Client_connect_def
       DMX_MVR_X_Server_enable_def DMX_MVR_X_Server_init_def server_method_def
       seq_def client_method_def emit_def Let_def ret_def ext_call_def)

text \<open>
  C1 as it holds: no operation of the module writes the preference store, and when
  the store holds an \<open>application_uuid\<close>, every client and server singleton that
  exists after any run of operations carries exactly that stored value.
\<close>

theorem C1_stored_identifier_stable:
  "prefs (run ops w) = prefs w \<and> (uuid_is v w \<longrightarrow> uuid_is v (run ops w))"
  using run_prefs run_uuid_is by blast

theorem C1_stored_identifier_stable_witness:
  "uuid_is ''0b5a7d52-1f0c-4c1e-9d3a-7a1e5c2f9b11'' demo_stored
   \<and> uuid_is ''0b5a7d52-1f0c-4c1e-9d3a-7a1e5c2f9b11''
        (run [Client_join calm (Some demo_peer), Server_enable calm, Client_leave calm,
              Client_join calm (Some demo_peer)] demo_stored)
   \<and> map_option application_uuid (client_instance (run [Client_join calm (Some demo_peer), Server_enable calm, Client_leave calm,
              Client_join calm (Some demo_peer)] demo_stored)) = Some ''0b5a7d52-1f0c-4c1e-9d3a-7a1e5c2f9b11''"
proof -
  have h: "uuid_is ''0b5a7d52-1f0c-4c1e-9d3a-7a1e5c2f9b11'' demo_stored"
    by (simp add: uuid_is_def demo_stored_def demo_world_def)
  have "uuid_is ''0b5a7d52-1f0c-4c1e-9d3a-7a1e5c2f9b11''
        (run [Client_join calm (Some demo_peer), Server_enable calm, Client_leave calm,
              Client_join calm (Some demo_peer)] demo_stored)"
    using C1_stored_identifier_stable[of "[Client_join calm (Some demo_peer), Server_enable calm, Client_leave calm,
              Client_join calm (Some demo_peer)]" demo_stored "''0b5a7d52-1f0c-4c1e-9d3a-7a1e5c2f9b11''"] h by blast
  moreover have "client_instance (run [Client_join calm (Some demo_peer), Server_enable calm, Client_leave calm,
              Client_join calm (Some demo_peer)] demo_stored) \<noteq> None"
    by (simp add: demo_stored_def demo_world_def calm_def demo_peer_def DMX_MVR_X_Client_join_def DMX_MVR_X_Client_init_def DMX_MVR_X_Client_connect_def
       DMX_MVR_X_Server_enable_def DMX_MVR_X_Server_init_def DMX_MVR_X_Client_leave_def server_method_def
       seq_def client_method_def emit_def Let_def ret_def ext_call_def)
  ultimately show ?thesis using h by (auto simp: uuid_is_def split: option.splits)
qed

subsection \<open>C2: a rejected join\<close>

text \<open>
  Claim C2 says that every join acknowledgement with \<open>OK\<close> false moves the client
  session to Disconnected, disables further joins and surfaces one rejection event.
  A rejection without \<open>StationUUID\<close> is dropped with no effect at all, and a
  rejection with it leaves the singleton and its transport in place: only the error
  line is logged and the host flag \<open>mvrx_enabled\<close> cleared.
\<close>

theorem C2_counterexample:
  "DMX_MVR_X_Client_callback msg_no_station demo_joined =
     (None, demo_joined\<lparr>trace := [Print ''Bad response'']\<rparr>)
   \<and> mvrx_enabled demo_joined
   \<and> map_option client (client_instance (snd (DMX_MVR_X_Client_callback msg_rejected demo_joined)))
       = Some (Some 0)
   \<and> new_events demo_joined (snd (DMX_MVR_X_Client_callback msg_rejected demo_joined))
       = [LogError ''MVR-xchange client refused our connection'']"
  by (simp add: demo_defs op_defs)

text \<open>
  C2 as it holds: for a message that carries \<open>StationUUID\<close>, has \<open>Type\<close> equal to
  \<open>MVR_JOIN_RET\<close> and \<open>OK\<close> the literal false, received while the client singleton
  exists, the callback returns normally, clears \<open>mvrx_enabled\<close>, logs exactly one
  error, and leaves the client singleton (and so its transport) as it was.
\<close>

theorem C2_rejection_clears_flag:
  assumes "map_of data ''StationUUID'' = Some u"
      and "map_of data ''Type'' = Some (JStr ''MVR_JOIN_RET'')"
      and "map_of data ''OK'' = Some (JBool False)"
      and "client_instance w = Some inst"
  shows "fst (DMX_MVR_X_Client_callback data w) = None
       \<and> mvrx_enabled (snd (DMX_MVR_X_Client_callback data w)) = False
       \<and> filter is_LogError (new_events w (snd (DMX_MVR_X_Client_callback data w))) =
           [LogError ''MVR-xchange client refused our connection'']
       \<and> client_instance (snd (DMX_MVR_X_Client_callback data w)) = Some inst"
proof -
  have r: "is_rejection data" using assms(2,3) by (simp add: is_rejection_def)
  have f: "\<And>k ev. (\<And>v. \<not> is_LogError (ev v)) \<Longrightarrow> filter is_LogError (on_field data k ev) = []"
    by (simp add: on_field_def split: option.splits)
  show ?thesis
    by (simp add: client_callback_eq[OF assms(1,4)] r new_events_def f assms(4))
qed

theorem C2_rejection_clears_flag_witness:
  "map_of msg_rejected ''StationUUID'' = Some (JStr ''a1'')
   \<and> map_of msg_rejected ''Type'' = Some (JStr ''MVR_JOIN_RET'')
   \<and> map_of msg_rejected ''OK'' = Some (JBool False)
   \<and> mvrx_enabled demo_joined
   \<and> fst (DMX_MVR_X_Client_callback msg_rejected demo_joined) = None
   \<and> mvrx_enabled (snd (DMX_MVR_X_Client_callback msg_rejected demo_joined)) = False
   \<and> filter is_LogError
        (new_events demo_joined (snd (DMX_MVR_X_Client_callback msg_rejected demo_joined))) =
       [LogError ''MVR-xchange client refused our connection'']"
proof -
  have a: "map_of msg_rejected ''StationUUID'' = Some (JStr ''a1'')"
          "map_of msg_rejected ''Type'' = Some (JStr ''MVR_JOIN_RET'')"
          "map_of msg_rejected ''OK'' = Some (JBool False)"
    by (simp_all add: msg_rejected_def)
  have b: "client_instance demo_joined = Some \<lparr>client = Some 0, selected_client = Some demo_peer,
              application_uuid = ''6fa459ea-ee8a-4ca4-894e-db77e160355e''\<rparr>"
          "mvrx_enabled demo_joined"
    by (simp_all add: demo_defs)
  show ?thesis
    using C2_rejection_clears_flag[OF a b(1)] a b by simp
qed

subsection \<open>C3: a message without StationUUID\<close>

text \<open>
  Claim C3: for a message that lacks the \<open>StationUUID\<close> field, the client and the
  server handler log it and ignore it. Nothing but the printed lines is added to the
  state: no host handler runs, the singletons and their transports are as before, and
  no exception escapes.
\<close>

theorem C3_missing_station_uuid_ignored:
  assumes "map_of data ''StationUUID'' = None"
  shows "DMX_MVR_X_Client_callback data w = (None, w\<lparr>trace := trace w @ [Print ''Bad response'']\<rparr>)
       \<and> DMX_MVR_X_Server_callback data a w =
           (None, w\<lparr>trace := trace w @ [Print ''callback'', Print ''Bad response'']\<rparr>)"
  using assms
  by (simp add: DMX_MVR_X_Client_callback_def DMX_MVR_X_Server_callback_def emit_def Let_def
        split: prod.splits)

theorem C3_missing_station_uuid_ignored_witness:
  "map_of msg_no_station ''StationUUID'' = None
   \<and> DMX_MVR_X_Client_callback msg_no_station demo_joined =
       (None, demo_joined\<lparr>trace := [Print ''Bad response'']\<rparr>)
   \<and> DMX_MVR_X_Server_callback msg_no_station (''10.0.0.7'', 5000) demo_serving =
       (None, demo_serving\<lparr>trace := [Print ''callback'', Print ''Bad response'']\<rparr>)"
proof -
  have h: "map_of msg_no_station ''StationUUID'' = None" by (simp add: msg_no_station_def)
  have t: "trace demo_joined = []" "trace demo_serving = []" by (simp_all add: demo_defs)
  show ?thesis
    using C3_missing_station_uuid_ignored[OF h, of demo_joined "(''10.0.0.7'', 5000)"]
          C3_missing_station_uuid_ignored[OF h, of demo_serving "(''10.0.0.7'', 5000)"] h t
    by simp
qed

subsection \<open>C4: dispatch on the fields of a message\<close>

text \<open>
  Claim C4 says that a message carrying \<open>StationUUID\<close> triggers exactly the handler
  of its one kind. The handlers are guarded by independent tests, so a message with
  both \<open>Commits\<close> and \<open>Provider\<close> (as a join acknowledgement has) runs two of them.
\<close>

theorem C4_counterexample:
  "new_events demo_joined (snd (DMX_MVR_X_Client_callback msg_commits_provider demo_joined)) =
     [CreateMVR_Commits (JArr []) (JStr ''a1''),
      UpdateMVR_Client (JStr ''BlenderDMX'') (JStr ''a1'')]"
  by (simp add: demo_defs op_defs msg_commits_provider_def)

text \<open>
  C4 as it holds: for a message carrying \<open>StationUUID\<close>, received while the
  singleton exists, each of the fields \<open>Commits\<close>, \<open>FileUUID\<close>, \<open>Provider\<close> and
  \<open>file_downloaded\<close> that is present triggers its own host handler, independently
  of the others and in this order (\<open>Commits\<close> and \<open>FileUUID\<close> both feed the commit
  handler); the client then logs the rejection when the message is a refused join.
  Nothing else is called.
\<close>

theorem C4_one_handler_per_field:
  assumes "map_of data ''StationUUID'' = Some u"
  shows "(client_instance w \<noteq> None \<longrightarrow>
            fst (DMX_MVR_X_Client_callback data w) = None
          \<and> new_events w (snd (DMX_MVR_X_Client_callback data w)) =
              on_field data ''Commits'' (\<lambda>v. CreateMVR_Commits v u)
              @ on_field data ''FileUUID'' (\<lambda>v. CreateMVR_Commits (JArr [JObj data]) u)
              @ on_field data ''Provider'' (\<lambda>v. UpdateMVR_Client v u)
              @ on_field data ''file_downloaded'' (\<lambda>v. Fetched_mvr_downloaded_file v)
              @ (if is_rejection data
                 then [LogError ''MVR-xchange client refused our connection''] else []))
       \<and> (server_instance w \<noteq> None \<longrightarrow>
            fst (DMX_MVR_X_Server_callback data (addr, prt) w) = None
          \<and> new_events w (snd (DMX_MVR_X_Server_callback data (addr, prt) w)) =
              [Print ''callback'']
              @ on_field data ''Commits'' (\<lambda>v. CreateMVR_Commits v u)
              @ on_field data ''FileUUID'' (\<lambda>v. CreateMVR_Commits (JArr [JObj data]) u)
              @ on_field data ''Provider''
                  (\<lambda>v. CreateMVR_Client (dict_get data ''StationName'') u addr prt v)
              @ on_field data ''file_downloaded'' (\<lambda>v. Fetched_mvr_downloaded_file v))"
proof (intro conjI impI)
  assume "client_instance w \<noteq> None"
  then obtain inst where i: "client_instance w = Some inst" by auto
  show "fst (DMX_MVR_X_Client_callback data w) = None"
    by (simp add: client_callback_eq[OF assms i])
  show "new_events w (snd (DMX_MVR_X_Client_callback data w)) =
              on_field data ''Commits'' (\<lambda>v. CreateMVR_Commits v u)
              @ on_field data ''FileUUID'' (\<lambda>v. CreateMVR_Commits (JArr [JObj data]) u)
              @ on_field data ''Provider'' (\<lambda>v. UpdateMVR_Client v u)
              @ on_field data ''file_downloaded'' (\<lambda>v. Fetched_mvr_downloaded_file v)
              @ (if is_rejection data
                 then [LogError ''MVR-xchange client refused our connection''] else [])"
    by (simp add: client_callback_eq[OF assms i] new_events_def)
next
  assume "server_instance w \<noteq> None"
  then obtain inst where i: "server_instance w = Some inst" by auto
  show "fst (DMX_MVR_X_Server_callback data (addr, prt) w) = None"
    by (simp add: server_callback_eq[OF assms i])
  show "new_events w (snd (DMX_MVR_X_Server_callback data (addr, prt) w)) =
              [Print ''callback'']
              @ on_field data ''Commits'' (\<lambda>v. CreateMVR_Commits v u)
              @ on_field data ''FileUUID'' (\<lambda>v. CreateMVR_Commits (JArr [JObj data]) u)
              @ on_field data ''Provider''
                  (\<lambda>v. CreateMVR_Client (dict_get data ''StationName'') u addr prt v)
              @ on_field data ''file_downloaded'' (\<lambda>v. Fetched_mvr_downloaded_file v)"
    by (simp add: server_callback_eq[OF assms i] new_events_def)
qed

theorem C4_one_handler_per_field_witness:
  "map_of msg_join_ret ''StationUUID'' = Some (JStr ''a1'')
   \<and> client_instance demo_joined \<noteq> None
   \<and> server_instance demo_serving \<noteq> None
   \<and> new_events demo_joined (snd (DMX_MVR_X_Client_callback msg_join_ret demo_joined)) =
       [CreateMVR_Commits (JArr []) (JStr ''a1''),
        UpdateMVR_Client (JStr ''BlenderDMX'') (JStr ''a1'')]
   \<and> new_events demo_serving
        (snd (DMX_MVR_X_Server_callback msg_join_ret (''10.0.0.7'', 5000) demo_serving)) =
       [Print ''callback'', CreateMVR_Commits (JArr []) (JStr ''a1''),
        CreateMVR_Client (JStr []) (JStr ''a1'') ''10.0.0.7'' 5000 (JStr ''BlenderDMX'')]"
proof -
  have a: "map_of msg_join_ret ''StationUUID'' = Some (JStr ''a1'')"
    by (simp add: msg_join_ret_def)
  have b: "client_instance demo_joined \<noteq> None" "server_instance demo_serving \<noteq> None"
    by (simp_all add: demo_defs)
  have c: "\<not> is_rejection msg_join_ret" by (simp add: is_rejection_def msg_join_ret_def)
  have d: "on_field msg_join_ret ''Commits'' = (\<lambda>ev. [ev (JArr [])])"
          "on_field msg_join_ret ''FileUUID'' = (\<lambda>ev. [])"
          "on_field msg_join_ret ''Provider'' = (\<lambda>ev. [ev (JStr ''BlenderDMX'')])"
          "on_field msg_join_ret ''file_downloaded'' = (\<lambda>ev. [])"
          "dict_get msg_join_ret ''StationName'' = JStr []"
    by (simp_all add: on_field_def msg_join_ret_def fun_eq_iff dict_get_def)
  show ?thesis
    using C4_one_handler_per_field[OF a, of demo_joined "''10.0.0.7''" 5000]
          C4_one_handler_per_field[OF a, of demo_serving "''10.0.0.7''" 5000] a b c d
    by simp
qed

subsection \<open>C5: requesting a file\<close>

text \<open>
  Claim C5 says that \<open>request_file\<close> fails with a not-connected error when there is
  no joined session. Without a singleton, or with a singleton that has no transport,
  it returns normally and does nothing.
\<close>

theorem C5_counterexample:
  "DMX_MVR_X_Client_request_file calm Posixpath demo_addon_path demo_commit demo_world = (None, demo_world)
   \<and> DMX_MVR_X_Client_request_file calm Posixpath demo_addon_path demo_commit demo_pending = (None, demo_pending)"
  by (simp add: demo_defs op_defs)

text \<open>
  C5 as it holds: without a singleton or without a transport \<open>request_file\<close>
  returns normally and leaves the state untouched (no transfer starts); it never lets
  an exception escape; and with a transport it reconnects and then hands the commit
  and the path \<open><commit_uuid>.mvr\<close> to the transport's \<open>request_file\<close>, on the
  freshly constructed transport, or on the old one when the constructor raised
  (provided the new transport's \<open>start()\<close> does not raise).
\<close>

theorem C5_request_file_silent_or_delegates:
  "((client_instance w = None \<or> map_option client (client_instance w) = Some None) \<longrightarrow>
      DMX_MVR_X_Client_request_file en osp a c w = (None, w))
   \<and> fst (DMX_MVR_X_Client_request_file en osp a c w) = None
   \<and> (client_instance w = Some inst \<and> client inst = Some h \<and> selected_client inst = Some p
        \<and> (ctor_raises en \<or> \<not> start_raises en) \<longrightarrow>
      ClientRequestFile (if ctor_raises en then h else next_handle w) (commit_uuid c)
         (DMX_MVR_X_Client_request_path osp a c)
        \<in> set (new_events w (snd (DMX_MVR_X_Client_request_file en osp a c w))))"
proof (intro conjI impI)
  assume "client_instance w = None \<or> map_option client (client_instance w) = Some None"
  then show "DMX_MVR_X_Client_request_file en osp a c w = (None, w)"
    by (auto simp: DMX_MVR_X_Client_request_file_def split: option.splits)
next
  show "fst (DMX_MVR_X_Client_request_file en osp a c w) = None"
    by (simp add: DMX_MVR_X_Client_request_file_def Let_def split: option.splits prod.splits)
next
  assume h: "client_instance w = Some inst \<and> client inst = Some h \<and> selected_client inst = Some p
        \<and> (ctor_raises en \<or> \<not> start_raises en)"
  then have i: "client_instance w = Some inst" and s: "selected_client inst = Some p" by simp_all
  show "ClientRequestFile (if ctor_raises en then h else next_handle w) (commit_uuid c)
         (DMX_MVR_X_Client_request_path osp a c)
        \<in> set (new_events w (snd (DMX_MVR_X_Client_request_file en osp a c w)))"
    using h
    by (auto simp: DMX_MVR_X_Client_request_file_def Let_def seq_def connect_cases[OF i s]
          client_method_def ext_call_def emit_def new_events_def)
qed

theorem C5_request_file_silent_or_delegates_witness:
  "client_instance demo_world = None
   \<and> DMX_MVR_X_Client_request_file calm Posixpath demo_addon_path demo_commit demo_world = (None, demo_world)
   \<and> map_option client (client_instance demo_joined) = Some (Some 0)
   \<and> ClientRequestFile 1 ''c1'' ''/home/u/addons/dmx/assets/mvrs/c1.mvr''
        \<in> set (new_events demo_joined
                 (snd (DMX_MVR_X_Client_request_file calm Posixpath demo_addon_path demo_commit demo_joined)))"
proof -
  have a: "client_instance demo_world = None" by (simp add: demo_defs)
  have b: "client_instance demo_joined = Some \<lparr>client = Some 0, selected_client = Some demo_peer,
              application_uuid = ''6fa459ea-ee8a-4ca4-894e-db77e160355e''\<rparr>"
          "next_handle demo_joined = 1" "\<not> ctor_raises calm" "\<not> start_raises calm"
    by (simp_all add: demo_defs)
  have p: "DMX_MVR_X_Client_request_path Posixpath demo_addon_path demo_commit =
             ''/home/u/addons/dmx/assets/mvrs/c1.mvr''" "commit_uuid demo_commit = ''c1''"
    by (simp_all add: DMX_MVR_X_Client_request_path_def os_path_join_def posix_join2_def
          demo_addon_path_def demo_commit_def)
  show ?thesis
    using C5_request_file_silent_or_delegates[of demo_world calm Posixpath demo_addon_path demo_commit]
          C5_request_file_silent_or_delegates[of demo_joined calm Posixpath demo_addon_path demo_commit
             "\<lparr>client = Some 0, selected_client = Some demo_peer,
              application_uuid = ''6fa459ea-ee8a-4ca4-894e-db77e160355e''\<rparr>" 0 demo_peer]
          a b p
    by simp
qed

subsection \<open>C6: a peer that cannot be reached\<close>

text \<open>
  Claim C6 says that \<open>connect\<close> fails with a connection error surfaced to the caller
  when the transport cannot be established. The constructor's exception is caught
  inside \<open>connect\<close>, which returns normally.
\<close>

theorem C6_counterexample:
  "fst (DMX_MVR_X_Client_connect unreachable demo_pending) = None"
  by (simp add: demo_defs op_defs)

text \<open>
  C6 as it holds: when the constructor raises, \<open>connect\<close> prints the failure and
  returns normally; the constructor was attempted exactly once (no retry), and the
  state, the \<open>client\<close> field included, is unchanged apart from the trace.
\<close>

theorem C6_connect_failure_swallowed:
  assumes "ctor_raises en" "client_instance w = Some inst" "selected_client inst = Some p"
  shows "DMX_MVR_X_Client_connect en w =
           (None, w\<lparr>trace := trace w @ [Print ''Connecting to MVR-xchange client'',
                        ClientCtor (ip_address p) (port p) (application_uuid inst),
                        Print ''Cannot connect to host'']\<rparr>)"
  using assms by (simp add: DMX_MVR_X_Client_connect_def emit_def Let_def)

theorem C6_connect_failure_swallowed_witness:
  "ctor_raises unreachable
   \<and> DMX_MVR_X_Client_connect unreachable demo_pending =
       (None, demo_pending\<lparr>trace := [Print ''Connecting to MVR-xchange client'',
                        ClientCtor ''192.168.1.20'' 48484 ''6fa459ea-ee8a-4ca4-894e-db77e160355e'',
                        Print ''Cannot connect to host'']\<rparr>)"
proof -
  have a: "ctor_raises unreachable" by (simp add: demo_defs)
  have b: "client_instance demo_pending = Some \<lparr>client = None, selected_client = Some demo_peer,
             application_uuid = ''6fa459ea-ee8a-4ca4-894e-db77e160355e''\<rparr>" by (simp add: demo_defs)
  have c: "selected_client \<lparr>client = None, selected_client = Some demo_peer,
             application_uuid = ''6fa459ea-ee8a-4ca4-894e-db77e160355e''\<rparr> = Some demo_peer" by simp
  have t: "trace demo_pending = []" by (simp add: demo_defs)
  show ?thesis using C6_connect_failure_swallowed[OF a b c] a t by (simp add: demo_peer_def)
qed

subsection \<open>C7: leaving\<close>

text \<open>
  Claim C7 says that \<open>leave\<close> is a no-op without a live singleton and otherwise
  sends LEAVE, waits and tears the transport down, ending Disconnected in all cases.
  A singleton without a transport (the state a failed join leaves) is live, yet
  \<open>leave\<close> sends nothing, does not wait and stops nothing: it only drops the
  singleton and logs.
\<close>

theorem C7_counterexample:
  "client_instance demo_pending \<noteq> None
   \<and> new_events demo_pending (snd (DMX_MVR_X_Client_leave calm demo_pending)) =
       [LogInfo ''Disabling MVR'']"
  by (simp add: demo_defs op_defs)

text \<open>
  C7 as it holds: without a singleton \<open>leave\<close> changes nothing; whenever \<open>leave\<close>
  returns normally the singleton is gone and a second \<open>leave\<close> changes nothing; and
  with a singleton that has a transport, when the transport's methods do not raise,
  \<open>leave\<close> reconnects, sends LEAVE, sleeps, stops the transport it sent on, drops
  the singleton and logs, in this order; with a singleton that has no transport it
  only drops the singleton and logs.
\<close>

theorem C7_leave_idempotent:
  "(client_instance w = None \<longrightarrow> DMX_MVR_X_Client_leave en w = (None, w))
   \<and> (fst (DMX_MVR_X_Client_leave en w) = None \<longrightarrow>
        client_instance (snd (DMX_MVR_X_Client_leave en w)) = None
      \<and> DMX_MVR_X_Client_leave en2 (snd (DMX_MVR_X_Client_leave en w)) =
          (None, snd (DMX_MVR_X_Client_leave en w)))
   \<and> (client_instance w = Some inst \<and> client inst = Some h \<and> selected_client inst = Some p
        \<and> \<not> start_raises en \<and> \<not> leave_raises en \<and> \<not> stop_raises en \<longrightarrow>
        fst (DMX_MVR_X_Client_leave en w) = None
      \<and> new_events w (snd (DMX_MVR_X_Client_leave en w)) =
          [Print ''Connecting to MVR-xchange client'',
           ClientCtor (ip_address p) (port p) (application_uuid inst)]
          @ (if ctor_raises en
             then [Print ''Cannot connect to host'', ClientLeaveMvr h, Sleep, ClientStop h]
             else [ClientStart (next_handle w), Print ''thread started'',
                   ClientLeaveMvr (next_handle w), Sleep, ClientStop (next_handle w)])
          @ [LogInfo ''Disabling MVR''])
   \<and> (client_instance w = Some inst \<and> client inst = None \<longrightarrow>
        DMX_MVR_X_Client_leave en w =
          (None, w\<lparr>client_instance := None,
                   trace := trace w @ [LogInfo ''Disabling MVR'']\<rparr>))"
proof (intro conjI impI)
  assume "client_instance w = None"
  then show "DMX_MVR_X_Client_leave en w = (None, w)"
    by (simp add: DMX_MVR_X_Client_leave_def)
next
  assume "client_instance w = Some inst \<and> client inst = None"
  then show "DMX_MVR_X_Client_leave en w =
          (None, w\<lparr>client_instance := None,
                   trace := trace w @ [LogInfo ''Disabling MVR'']\<rparr>)"
    by (simp add: DMX_MVR_X_Client_leave_def seq_def ret_def emit_def)
next
  assume ok: "fst (DMX_MVR_X_Client_leave en w) = None"
  show gone: "client_instance (snd (DMX_MVR_X_Client_leave en w)) = None"
  proof (cases "client_instance w")
    case None
    then show ?thesis by (simp add: DMX_MVR_X_Client_leave_def)
  next
    case (Some i)
    with ok show ?thesis
      by (auto simp: DMX_MVR_X_Client_leave_def seq_def ret_def emit_def
               split: prod.splits option.splits)
  qed
  then show "DMX_MVR_X_Client_leave en2 (snd (DMX_MVR_X_Client_leave en w)) =
          (None, snd (DMX_MVR_X_Client_leave en w))"
    by (simp add: DMX_MVR_X_Client_leave_def)
next
  assume h: "client_instance w = Some inst \<and> client inst = Some h \<and> selected_client inst = Some p
        \<and> \<not> start_raises en \<and> \<not> leave_raises en \<and> \<not> stop_raises en"
  then have i: "client_instance w = Some inst" and s: "selected_client inst = Some p" by simp_all
  from h show "fst (DMX_MVR_X_Client_leave en w) = None"
    by (simp add: DMX_MVR_X_Client_leave_def seq_def connect_cases[OF i s]
          client_method_def ext_call_def emit_def ret_def)
  from h show "new_events w (snd (DMX_MVR_X_Client_leave en w)) =
          [Print ''Connecting to MVR-xchange client'',
           ClientCtor (ip_address p) (port p) (application_uuid inst)]
          @ (if ctor_raises en
             then [Print ''Cannot connect to host'', ClientLeaveMvr h, Sleep, ClientStop h]
             else [ClientStart (next_handle w), Print ''thread started'',
                   ClientLeaveMvr (next_handle w), Sleep, ClientStop (next_handle w)])
          @ [LogInfo ''Disabling MVR'']"
    by (simp add: DMX_MVR_X_Client_leave_def seq_def connect_cases[OF i s]
          client_method_def ext_call_def emit_def ret_def new_events_def)
qed

theorem C7_leave_idempotent_witness:
  "client_instance demo_world = None
   \<and> DMX_MVR_X_Client_leave calm demo_world = (None, demo_world)
   \<and> fst (DMX_MVR_X_Client_leave calm demo_joined) = None
   \<and> client_instance (snd (DMX_MVR_X_Client_leave calm demo_joined)) = None
   \<and> DMX_MVR_X_Client_leave calm (snd (DMX_MVR_X_Client_leave calm demo_joined)) =
       (None, snd (DMX_MVR_X_Client_leave calm demo_joined))
   \<and> new_events demo_joined (snd (DMX_MVR_X_Client_leave calm demo_joined)) =
       [Print ''Connecting to MVR-xchange client'',
        ClientCtor ''192.168.1.20'' 48484 ''6fa459ea-ee8a-4ca4-894e-db77e160355e'',
        ClientStart 1, Print ''thread started'', ClientLeaveMvr 1, Sleep, ClientStop 1,
        LogInfo ''Disabling MVR'']"
proof -
  have a: "client_instance demo_world = None" by (simp add: demo_defs)
  have b: "client_instance demo_joined = Some \<lparr>client = Some 0, selected_client = Some demo_peer,
              application_uuid = ''6fa459ea-ee8a-4ca4-894e-db77e160355e''\<rparr>"
          "next_handle demo_joined = 1" "\<not> ctor_raises calm" "\<not> start_raises calm"
          "\<not> leave_raises calm" "\<not> stop_raises calm"
          "ip_address demo_peer = ''192.168.1.20''" "port demo_peer = 48484"
    by (simp_all add: demo_defs)
  show ?thesis
    using C7_leave_idempotent[of demo_world calm calm]
          C7_leave_idempotent[of demo_joined calm calm
             "\<lparr>client = Some 0, selected_client = Some demo_peer,
              application_uuid = ''6fa459ea-ee8a-4ca4-894e-db77e160355e''\<rparr>" 0 demo_peer]
          a b
    by simp
qed

subsection \<open>C8: the local path of a commit\<close>

text \<open>
  Claim C8 says that the target path of a file transfer is the file
  \<open><commit_uuid>.mvr\<close> under the add-on's \<open>assets/mvrs\<close> directory, the same for a
  request through the client and through the server. \<open>os.path.join\<close> discards the
  directory when the last component is absolute: for the \<open>commit_uuid\<close> \<open>/tmp/x\<close> the
  client asks its transport for \<open>/tmp/x.mvr\<close>. The server's \<open>request_file\<close> names no
  path at all, since it raises at the attribute read of line 164.
\<close>

theorem C8_counterexample:
  "new_events demo_joined
     (snd (DMX_MVR_X_Client_request_file calm Posixpath demo_addon_path abs_commit demo_joined)) =
     [Print ''Connecting to MVR-xchange client'',
      ClientCtor ''192.168.1.20'' 48484 ''6fa459ea-ee8a-4ca4-894e-db77e160355e'',
      ClientStart 1, Print ''thread started'',
      ClientRequestFile 1 ''/tmp/x'' ''/tmp/x.mvr'',
      LogInfo ''Requesting file'']
   \<and> DMX_MVR_X_Server_request_file calm Posixpath demo_addon_path demo_commit demo_serving =
       (Some AttributeError, demo_serving)"
  by (simp add: demo_defs op_defs DMX_MVR_X_Client_request_path_def os_path_join_def
        posix_join2_def DMX_MVR_X_Server_request_file_def getattr_DMX_MVR_X_Server_def)

text \<open>
  C8 as it holds, for the requests the client hands to its transport, under
  \<open>posixpath\<close> and under \<open>ntpath\<close>: the path is determined by \<open>commit_uuid\<close> alone (two
  requests for commits with the same \<open>commit_uuid\<close>, in whatever states and with
  whatever transport behaviour, carry the same path); and when \<open>commit_uuid\<close> has
  no path separator in it (and, under \<open>ntpath\<close>, no drive colon), the path is the
  \<open>assets/mvrs\<close> directory of the add-on, one separator, and the single component
  \<open><commit_uuid>.mvr\<close>.
\<close>

theorem C8_client_target_path:
  "(ClientRequestFile h1 u1 p1
      \<in> set (new_events w1 (snd (DMX_MVR_X_Client_request_file en1 osp a c1 w1)))
    \<and> ClientRequestFile h2 u2 p2
      \<in> set (new_events w2 (snd (DMX_MVR_X_Client_request_file en2 osp a c2 w2)))
    \<and> commit_uuid c1 = commit_uuid c2
    \<longrightarrow> p1 = p2)
   \<and> (ClientRequestFile h1 u1 p1
      \<in> set (new_events w1 (snd (DMX_MVR_X_Client_request_file en1 osp a c1 w1)))
    \<and> plain_component osp (commit_uuid c1)
    \<longrightarrow> p1 = os_path_join osp a [''assets'', ''mvrs''] @ [os_sep osp] @ commit_uuid c1 @ ''.mvr''
      \<and> plain_component osp (commit_uuid c1 @ ''.mvr''))"
proof (intro conjI impI)
  assume h: "ClientRequestFile h1 u1 p1
      \<in> set (new_events w1 (snd (DMX_MVR_X_Client_request_file en1 osp a c1 w1)))
    \<and> ClientRequestFile h2 u2 p2
      \<in> set (new_events w2 (snd (DMX_MVR_X_Client_request_file en2 osp a c2 w2)))
    \<and> commit_uuid c1 = commit_uuid c2"
  then have "p1 = DMX_MVR_X_Client_request_path osp a c1"
        and "p2 = DMX_MVR_X_Client_request_path osp a c2"
    using request_file_event by blast+
  with h show "p1 = p2" by (simp add: DMX_MVR_X_Client_request_path_def)
next
  assume h: "ClientRequestFile h1 u1 p1
      \<in> set (new_events w1 (snd (DMX_MVR_X_Client_request_file en1 osp a c1 w1)))
    \<and> plain_component osp (commit_uuid c1)"
  then have p: "p1 = DMX_MVR_X_Client_request_path osp a c1"
    using request_file_event by blast
  from h have pl: "plain_component osp (commit_uuid c1 @ ''.mvr'')"
    by (simp add: plain_component_mvr)
  show "p1 = os_path_join osp a [''assets'', ''mvrs''] @ [os_sep osp] @ commit_uuid c1 @ ''.mvr''"
    using os_path_join_plain_last[OF pl, of a] p
    by (simp add: DMX_MVR_X_Client_request_path_def)
  show "plain_component osp (commit_uuid c1 @ ''.mvr'')" by (rule pl)
qed

theorem C8_client_target_path_witness:
  "ClientRequestFile 1 ''c1'' ''/home/u/addons/dmx/assets/mvrs/c1.mvr''
     \<in> set (new_events demo_joined
              (snd (DMX_MVR_X_Client_request_file calm Posixpath demo_addon_path demo_commit
                      demo_joined)))
   \<and> plain_component Posixpath (commit_uuid demo_commit)
   \<and> ''/home/u/addons/dmx/assets/mvrs/c1.mvr'' =
       os_path_join Posixpath demo_addon_path [''assets'', ''mvrs''] @ [os_sep Posixpath]
         @ commit_uuid demo_commit @ ''.mvr''
   \<and> os_path_join Posixpath demo_addon_path [''assets'', ''mvrs''] =
       ''/home/u/addons/dmx/assets/mvrs''
   \<and> ClientRequestFile 1 ''c1''
       (''C:'' @ [bslash] @ ''addons'' @ [bslash] @ ''dmx'' @ [bslash] @ ''assets'' @ [bslash]
          @ ''mvrs'' @ [bslash] @ ''c1.mvr'')
     \<in> set (new_events demo_joined
              (snd (DMX_MVR_X_Client_request_file calm demo_ntpath demo_nt_addon_path
                      demo_commit demo_joined)))
   \<and> plain_component demo_ntpath (commit_uuid demo_commit)
   \<and> ''C:'' @ [bslash] @ ''addons'' @ [bslash] @ ''dmx'' @ [bslash] @ ''assets'' @ [bslash]
          @ ''mvrs'' @ [bslash] @ ''c1.mvr'' =
       os_path_join demo_ntpath demo_nt_addon_path [''assets'', ''mvrs''] @ [os_sep demo_ntpath]
         @ commit_uuid demo_commit @ ''.mvr''"
proof -
  have m: "ClientRequestFile 1 ''c1'' ''/home/u/addons/dmx/assets/mvrs/c1.mvr''
     \<in> set (new_events demo_joined
              (snd (DMX_MVR_X_Client_request_file calm Posixpath demo_addon_path demo_commit
                      demo_joined)))"
    by (simp add: demo_defs op_defs DMX_MVR_X_Client_request_path_def os_path_join_def
          posix_join2_def)
  have pl: "plain_component Posixpath (commit_uuid demo_commit)"
    by (simp add: plain_component_def demo_commit_def)
  have d: "os_path_join Posixpath demo_addon_path [''assets'', ''mvrs''] =
       ''/home/u/addons/dmx/assets/mvrs''"
    by (simp add: os_path_join_def posix_join2_def demo_addon_path_def)
  have m': "ClientRequestFile 1 ''c1''
       (''C:'' @ [bslash] @ ''addons'' @ [bslash] @ ''dmx'' @ [bslash] @ ''assets'' @ [bslash]
          @ ''mvrs'' @ [bslash] @ ''c1.mvr'')
     \<in> set (new_events demo_joined
              (snd (DMX_MVR_X_Client_request_file calm demo_ntpath demo_nt_addon_path
                      demo_commit demo_joined)))"
    by (simp add: demo_defs op_defs DMX_MVR_X_Client_request_path_def os_path_join_def
          demo_ntpath_def demo_nt_addon_path_def nt_join_def nt_join2_def nt_splitdrive_def
          nt_is_sep_def bslash_def)
  have pl': "plain_component demo_ntpath (commit_uuid demo_commit)"
    by (simp add: plain_component_def demo_ntpath_def demo_commit_def bslash_def)
  from C8_client_target_path[of 1 "''c1''" "''/home/u/addons/dmx/assets/mvrs/c1.mvr''"
         demo_joined calm Posixpath demo_addon_path demo_commit
         1 "''c1''" "''/home/u/addons/dmx/assets/mvrs/c1.mvr''" demo_joined calm demo_commit]
       m pl
  have e: "''/home/u/addons/dmx/assets/mvrs/c1.mvr'' =
       os_path_join Posixpath demo_addon_path [''assets'', ''mvrs''] @ [os_sep Posixpath]
         @ commit_uuid demo_commit @ ''.mvr''"
    by blast
  from C8_client_target_path[of 1 "''c1''"
         "''C:'' @ [bslash] @ ''addons'' @ [bslash] @ ''dmx'' @ [bslash] @ ''assets'' @ [bslash]
            @ ''mvrs'' @ [bslash] @ ''c1.mvr''"
         demo_joined calm demo_ntpath demo_nt_addon_path demo_commit
         1 "''c1''"
         "''C:'' @ [bslash] @ ''addons'' @ [bslash] @ ''dmx'' @ [bslash] @ ''assets'' @ [bslash]
            @ ''mvrs'' @ [bslash] @ ''c1.mvr''" demo_joined calm demo_commit]
       m' pl'
  have e': "''C:'' @ [bslash] @ ''addons'' @ [bslash] @ ''dmx'' @ [bslash] @ ''assets'' @ [bslash]
          @ ''mvrs'' @ [bslash] @ ''c1.mvr'' =
       os_path_join demo_ntpath demo_nt_addon_path [''assets'', ''mvrs''] @ [os_sep demo_ntpath]
         @ commit_uuid demo_commit @ ''.mvr''"
    by blast
  from m pl d e m' pl' e' show ?thesis by blast
qed

subsection \<open>C9: join after a failed connect\<close>

text \<open>
  Claim C9: when the transport cannot be established, \<open>connect\<close> swallows the
  constructor's exception and leaves the \<open>client\<close> field \<open>None\<close>, so \<open>join\<close>, which
  calls \<open>join_mvr()\<close> on that field, lets an attribute error escape; no join request
  is sent and nothing but the printed connection failure is reported.
\<close>

theorem C9_join_unreachable_raises:
  assumes "ctor_raises en"
  shows "fst (DMX_MVR_X_Client_join en p w) = Some AttributeError
       \<and> map_option client (client_instance (snd (DMX_MVR_X_Client_join en p w))) = Some None
       \<and> new_events w (snd (DMX_MVR_X_Client_join en p w)) =
           (case p of
              None \<Rightarrow> [Print ''Cannot connect to host'']
            | Some q \<Rightarrow>
                [Print ''Connecting to MVR-xchange client'',
                 ClientCtor (ip_address q) (port q)
                   (case prefs w ''application_uuid'' of Some v \<Rightarrow> v
                    | None \<Rightarrow> uuid4 w (uuid_calls w)),
                 Print ''Cannot connect to host''])"
  using assms
  by (simp add: DMX_MVR_X_Client_join_def DMX_MVR_X_Client_init_def DMX_MVR_X_Client_connect_def
       seq_def client_method_def emit_def Let_def new_events_def split: option.splits)

theorem C9_join_unreachable_raises_witness:
  "ctor_raises unreachable
   \<and> fst (DMX_MVR_X_Client_join unreachable (Some demo_peer) demo_world) = Some AttributeError
   \<and> map_option client (client_instance (snd (DMX_MVR_X_Client_join unreachable (Some demo_peer) demo_world))) = Some None
   \<and> new_events demo_world (snd (DMX_MVR_X_Client_join unreachable (Some demo_peer) demo_world)) =
        [Print ''Connecting to MVR-xchange client'',
         ClientCtor ''192.168.1.20'' 48484 ''6fa459ea-ee8a-4ca4-894e-db77e160355e'',
         Print ''Cannot connect to host'']"
proof -
  have a: "ctor_raises unreachable" by (simp add: demo_defs)
  show ?thesis
    using C9_join_unreachable_raises[OF a, of "Some demo_peer" demo_world] a
    by (simp add: demo_world_def demo_peer_def)
qed

subsection \<open>C10: enabling the server twice\<close>

text \<open>
  Claim C10: \<open>DMX_MVR_X_Server.enable()\<close> returns at once, changing nothing, when a
  server singleton exists; after any \<open>enable\<close> a singleton exists, so a second
  \<open>enable\<close> constructs no second server and restarts no listener.
\<close>

theorem C10_enable_idempotent:
  "(server_instance w \<noteq> None \<longrightarrow> DMX_MVR_X_Server_enable en w = (None, w))
   \<and> server_instance (snd (DMX_MVR_X_Server_enable en w)) \<noteq> None
   \<and> DMX_MVR_X_Server_enable en2 (snd (DMX_MVR_X_Server_enable en w)) =
       (None, snd (DMX_MVR_X_Server_enable en w))"
proof -
  have a: "\<And>s e. server_instance s \<noteq> None \<Longrightarrow> DMX_MVR_X_Server_enable e s = (None, s)"
    by (auto simp: DMX_MVR_X_Server_enable_def)
  have b: "server_instance (snd (DMX_MVR_X_Server_enable en w)) \<noteq> None"
    by (simp add: DMX_MVR_X_Server_enable_def DMX_MVR_X_Server_init_def Let_def server_method_def
          ext_call_def emit_def split: option.splits)
  from a b show ?thesis by blast
qed

theorem C10_enable_idempotent_witness:
  "server_instance demo_serving \<noteq> None
   \<and> DMX_MVR_X_Server_enable calm demo_serving = (None, demo_serving)
   \<and> DMX_MVR_X_Server_enable calm (snd (DMX_MVR_X_Server_enable unreachable demo_world)) =
       (None, snd (DMX_MVR_X_Server_enable unreachable demo_world))"
proof -
  have a: "server_instance demo_serving \<noteq> None" by (simp add: demo_defs)
  show ?thesis
    using C10_enable_idempotent[of demo_serving calm calm]
          C10_enable_idempotent[of demo_world unreachable calm] a
    by simp
qed

end
